theory Spec2Isabelle
  imports Main "HOL-Library.Word"
begin

section \<open>BSON documents\<close>

text \<open>
  Modelled from the spec: the BSON library (\<open>BSONObj\<close>, \<open>BSONElement\<close>,
  \<open>BSONObjBuilder\<close>), which is not among the source files. A protocol message is an
  ordered sequence of named, typed fields (the table of the spec's section 6); names
  may repeat and a lookup returns the first element of that name. The element kinds are
  the ones the migration commit message and the progress report use, and two more
  (\<open>BBool\<close>, \<open>BNull\<close>) that stand for a value of any other type.
\<close>

type_synonym OID = "96 word"

type_synonym Timestamp = "64 word"

datatype BSONElement =
    BString string
  | BObject "(string \<times> BSONElement) list"
  | BTimestamp Timestamp
  | BOID OID
  | BLong "64 word"
  | BUUID "128 word"
  | BBool bool
  | BNull

type_synonym BSONObj = "(string \<times> BSONElement) list"

datatype BSONType =
    String_type | Object_type | Timestamp_type | OID_type | Long_type | BinData_type | Bool_type | Null_type

fun elementType :: "BSONElement \<Rightarrow> BSONType" where
  "elementType (BString s) = String_type"
| "elementType (BObject obj) = Object_type"
| "elementType (BTimestamp t) = Timestamp_type"
| "elementType (BOID x) = OID_type"
| "elementType (BLong n) = Long_type"
| "elementType (BUUID u) = BinData_type"
| "elementType (BBool b) = Bool_type"
| "elementType BNull = Null_type"

text \<open>
  Modelled from the spec: \<open>BSONObj::operator[]\<close> (absent), written \<open>obj[field]\<close> in
  the source: the first element named \<open>field\<close>; \<open>None\<close> is the missing (EOO) element.
\<close>

definition getField :: "BSONObj \<Rightarrow> string \<Rightarrow> BSONElement option" where
  "getField obj field = map_of obj field"

text \<open>Modelled from the spec: \<open>BSONObj::isEmpty\<close> (absent): the object has no field.\<close>

definition isEmpty :: "BSONObj \<Rightarrow> bool" where
  "isEmpty obj = (obj = [])"

text \<open>
  Modelled from the spec: \<open>BSONObjBuilder\<close> (absent): the fields appended so far, the
  output buffer of the serializer. \<open>asTempObj\<close> is the object built so far; \<open>append\<close>
  adds one element at the end; a sub-object (\<open>subobjStart\<close>) is built by a builder of
  its own and appended as one element when it is finished.
\<close>

type_synonym BSONObjBuilder = BSONObj

definition asTempObj :: "BSONObjBuilder \<Rightarrow> BSONObj" where
  "asTempObj builder = builder"

definition appendElement :: "BSONObjBuilder \<Rightarrow> string \<Rightarrow> BSONElement \<Rightarrow> BSONObjBuilder" where
  "appendElement builder field v = builder @ [(field, v)]"

section \<open>Status and field extraction\<close>

text \<open>
  The error codes. \<open>NoSuchKey\<close>, \<open>UnsupportedFormat\<close> and the numbered code of a
  \<open>uassert\<close> (\<open>Location\<close>) are named in the source. Modelled from the spec:
  \<open>MalformedInput\<close> (a range or version that cannot be constructed) and
  \<open>ConflictingOperation\<close>; \<open>TypeMismatch\<close> is the code of a field that has another
  type than the one asked for.
\<close>

datatype ErrorCodes =
    NoSuchKey
  | TypeMismatch
  | UnsupportedFormat
  | MalformedInput
  | ConflictingOperation
  | Location nat

record Status =
  code :: ErrorCodes
  reason :: string

text \<open>
  Modelled from the spec: \<open>bsonExtractTypedField\<close> of
  \<open>mongo/bson/util/bson_extract.h\<close>, which is not among the source files. A field that
  is absent is reported as \<open>NoSuchKey\<close> (the code the parser tests for on
  \<open>validAfter\<close>); a field that is present with another type is a failure of another
  code, \<open>TypeMismatch\<close>; the reason names the field.
\<close>

definition bsonExtractTypedField :: "BSONObj \<Rightarrow> string \<Rightarrow> BSONType \<Rightarrow> Status + BSONElement" where
  "bsonExtractTypedField object fieldName type =
     (case getField object fieldName of
        None \<Rightarrow> Inl \<lparr>code = NoSuchKey, reason = ''Missing expected field '' @ fieldName\<rparr>
      | Some element \<Rightarrow>
          if elementType element \<noteq> type
          then Inl \<lparr>code = TypeMismatch, reason = ''Wrong type for field '' @ fieldName\<rparr>
          else Inr element)"

text \<open>
  Modelled from the spec: \<open>bsonExtractStringField\<close> (absent): the typed extraction of a
  string field, returning its string.
\<close>

definition bsonExtractStringField :: "BSONObj \<Rightarrow> string \<Rightarrow> Status + string" where
  "bsonExtractStringField object fieldName =
     (case bsonExtractTypedField object fieldName String_type of
        Inl status \<Rightarrow> Inl status
      | Inr element \<Rightarrow>
          (case element of
             BString s \<Rightarrow> Inr s
           | _ \<Rightarrow> Inl \<lparr>code = TypeMismatch, reason = ''Wrong type for field '' @ fieldName\<rparr>))"

text \<open>
  Modelled from the spec: \<open>bsonExtractTimestampField\<close> (absent): the typed extraction
  of a timestamp field; absence is \<open>NoSuchKey\<close>, a value that is not a well-formed
  timestamp is another failure.
\<close>

definition bsonExtractTimestampField :: "BSONObj \<Rightarrow> string \<Rightarrow> Status + Timestamp" where
  "bsonExtractTimestampField object fieldName =
     (case bsonExtractTypedField object fieldName Timestamp_type of
        Inl status \<Rightarrow> Inl status
      | Inr element \<Rightarrow>
          (case element of
             BTimestamp t \<Rightarrow> Inr t
           | _ \<Rightarrow> Inl \<lparr>code = TypeMismatch, reason = ''Wrong type for field '' @ fieldName\<rparr>))"

section \<open>Chunk versions, ranges and chunks\<close>

text \<open>
  Modelled from the spec: \<open>ChunkVersion\<close>, whose declaration is not among the source
  files. The version is the triple of the spec's data model: an epoch (an opaque
  identifier), a counter (unsigned, 64 bits) and a timestamp. A version is set when its
  counter is not zero.
\<close>

record ChunkVersion =
  epoch :: OID
  getTimestamp :: Timestamp
  counter :: "64 word"

text \<open>Modelled from the spec: \<open>ChunkVersion::isSet\<close> (absent): the version is not the unset, zero one.\<close>

definition isSet :: "ChunkVersion \<Rightarrow> bool" where
  "isSet v = (counter v \<noteq> 0)"

text \<open>
  Modelled from the spec: the names of the three components in the encoding of a
  version (absent declarations).
\<close>

definition kEpoch :: string where
  "kEpoch = ''e''"

definition kTimestamp :: string where
  "kTimestamp = ''t''"

definition kCounter :: string where
  "kCounter = ''v''"

text \<open>
  Modelled from the spec: the encoding of a version (absent): a nested object holding
  the epoch, the timestamp and the counter.
\<close>

definition ChunkVersion_toBSON :: "ChunkVersion \<Rightarrow> BSONObj" where
  "ChunkVersion_toBSON v =
     [(kEpoch, BOID (epoch v)), (kTimestamp, BTimestamp (getTimestamp v)), (kCounter, BLong (counter v))]"

text \<open>
  Modelled from the spec: \<open>ChunkVersion::serializeToBSON\<close> (absent): the version is
  appended under the given field name, in the encoding \<open>parse\<close> expects.
\<close>

definition serializeToBSON :: "ChunkVersion \<Rightarrow> string \<Rightarrow> BSONObjBuilder \<Rightarrow> BSONObjBuilder" where
  "serializeToBSON v field builder = appendElement builder field (BObject (ChunkVersion_toBSON v))"

text \<open>
  Modelled from the spec: \<open>ChunkVersion::parse\<close> (absent) reads the encoding from an
  element and throws, a \<open>DBException\<close> the parser turns into a status, when the element
  is missing, is not an object, or lacks a component of the right type. It does not
  require the version to be set: the source checks \<open>isSet\<close> itself where it needs to.
\<close>

definition versionParseError :: Status where
  "versionParseError = \<lparr>code = MalformedInput, reason = ''Cannot parse ChunkVersion''\<rparr>"

text \<open>Modelled from the spec: \<open>ChunkVersion::parse\<close>, as described above.\<close>

definition ChunkVersion_parse :: "BSONElement option \<Rightarrow> Status + ChunkVersion" where
  "ChunkVersion_parse element =
     (case element of
        Some (BObject obj) \<Rightarrow>
          (case getField obj kEpoch of
             Some (BOID e) \<Rightarrow>
               (case getField obj kTimestamp of
                  Some (BTimestamp t) \<Rightarrow>
                    (case getField obj kCounter of
                       Some (BLong c) \<Rightarrow> Inr \<lparr>epoch = e, getTimestamp = t, counter = c\<rparr>
                     | _ \<Rightarrow> Inl versionParseError)
                | _ \<Rightarrow> Inl versionParseError)
           | _ \<Rightarrow> Inl versionParseError)
      | _ \<Rightarrow> Inl versionParseError)"

text \<open>Modelled from the spec: \<open>ChunkRange\<close> (absent): a range holds two boundary keys.\<close>

record ChunkRange =
  minKey :: BSONObj
  maxKey :: BSONObj

text \<open>Modelled from the spec: the names of the two boundary fields (absent declarations).\<close>

definition kMinKey :: string where
  "kMinKey = ''min''"

definition kMaxKey :: string where
  "kMaxKey = ''max''"

text \<open>
  Modelled from the spec: \<open>ChunkRange::fromBSON\<close> (absent) reads the boundaries from
  the fields \<open>min\<close> and \<open>max\<close>. A boundary that is missing or is not an object is
  reported with the code of its extraction; a range that does not satisfy \<open>min < max\<close>
  under the shard key's ordering is \<open>MalformedInput\<close>. The ordering of keys
  (\<open>SimpleBSONObjComparator\<close>) is absent as well and is the parameter \<open>keyLess\<close>:
  \<open>min >= max\<close> is \<open>\<not> keyLess min max\<close>.
\<close>

definition ChunkRange_fromBSON :: "(BSONObj \<Rightarrow> BSONObj \<Rightarrow> bool) \<Rightarrow> BSONObj \<Rightarrow> Status + ChunkRange" where
  "ChunkRange_fromBSON keyLess obj =
     (case bsonExtractTypedField obj kMinKey Object_type of
        Inl status \<Rightarrow> Inl \<lparr>code = code status, reason = ''Invalid min key due to '' @ reason status\<rparr>
      | Inr minElem \<Rightarrow>
          (case bsonExtractTypedField obj kMaxKey Object_type of
             Inl status \<Rightarrow> Inl \<lparr>code = code status, reason = ''Invalid max key due to '' @ reason status\<rparr>
           | Inr maxElem \<Rightarrow>
               (case (minElem, maxElem) of
                  (BObject mn, BObject mx) \<Rightarrow>
                    if \<not> keyLess mn mx
                    then Inl \<lparr>code = MalformedInput, reason = ''min should be less than max''\<rparr>
                    else Inr \<lparr>minKey = mn, maxKey = mx\<rparr>
                | _ \<Rightarrow> Inl \<lparr>code = TypeMismatch, reason = ''Invalid range''\<rparr>)))"

text \<open>Modelled from the spec: \<open>ChunkRange::append\<close> (absent) writes the two boundary fields.\<close>

definition ChunkRange_append :: "ChunkRange \<Rightarrow> BSONObjBuilder \<Rightarrow> BSONObjBuilder" where
  "ChunkRange_append chunkRange builder =
     appendElement (appendElement builder kMinKey (BObject (minKey chunkRange)))
       kMaxKey (BObject (maxKey chunkRange))"

text \<open>
  Modelled from the spec: \<open>ChunkType\<close> (absent), as far as the commit message uses it:
  the range being handed over and the version it carries.
\<close>

record ChunkType =
  getMin :: BSONObj
  getMax :: BSONObj
  getVersion :: ChunkVersion

text \<open>Modelled from the spec: \<open>ChunkType::getRange\<close> (absent): the two boundaries as a range.\<close>

definition getRange :: "ChunkType \<Rightarrow> ChunkRange" where
  "getRange chunk = \<lparr>minKey = getMin chunk, maxKey = getMax chunk\<rparr>"

text \<open>
  Modelled from the spec: \<open>ChunkType::lastmod()\<close> (absent): the name of the version
  field inside the nested \<open>migratedChunk\<close> object.
\<close>

definition lastmod :: string where
  "lastmod = ''lastmod''"

section \<open>The migration commit request\<close>

text \<open>
  \<open>src/mongo/s/request_types/commit_chunk_migration_request_type.cpp\<close>.

  Modelled from the spec: \<open>NamespaceString\<close> and \<open>ShardId\<close> (absent). A collection
  identity is its full name, the string \<open>ns()\<close> returns; a shard identifier is a string.
  \<open>NamespaceString::isValid\<close> (the identity is well-formed) is absent and is the
  parameter \<open>isValid\<close> of the serializer.
\<close>

type_synonym NamespaceString = string

type_synonym ShardId = string

text \<open>Modelled from the spec: \<open>NamespaceString::ns\<close> (absent): the full name.\<close>

definition ns :: "NamespaceString \<Rightarrow> string" where
  "ns n = n"

text \<open>The field name constants of the source.\<close>

definition kConfigSvrCommitChunkMigration :: string where
  "kConfigSvrCommitChunkMigration = ''_configsvrCommitChunkMigration''"

definition kFromShard :: string where
  "kFromShard = ''fromShard''"

definition kToShard :: string where
  "kToShard = ''toShard''"

definition kMigratedChunk :: string where
  "kMigratedChunk = ''migratedChunk''"

definition kFromShardCollectionVersion :: string where
  "kFromShardCollectionVersion = ''fromShardCollectionVersion''"

definition kValidAfter :: string where
  "kValidAfter = ''validAfter''"

text \<open>
  The members of \<open>CommitChunkMigrationRequest\<close> that the parser assigns (\<open>_nss\<close>,
  \<open>_migratedChunk\<close>, \<open>_fromShard\<close>, \<open>_toShard\<close>, \<open>_collectionEpoch\<close>,
  \<open>_collectionTimestamp\<close>, \<open>_validAfter\<close>). The constructor takes the namespace and
  the chunk and leaves the other members at their defaults.
\<close>

record CommitChunkMigrationRequest =
  m_nss :: NamespaceString
  m_migratedChunk :: ChunkType
  m_fromShard :: ShardId
  m_toShard :: ShardId
  m_collectionEpoch :: OID
  m_collectionTimestamp :: Timestamp
  m_validAfter :: "Timestamp option"

definition newRequest :: "NamespaceString \<Rightarrow> ChunkType \<Rightarrow> CommitChunkMigrationRequest" where
  "newRequest n chunk =
     \<lparr>m_nss = n, m_migratedChunk = chunk, m_fromShard = [], m_toShard = [],
      m_collectionEpoch = 0, m_collectionTimestamp = 0, m_validAfter = None\<rparr>"

text \<open>\<open>extractChunk\<close>: a range-only chunk from \<open>field\<close> in \<open>source\<close>.\<close>

definition extractChunk :: "(BSONObj \<Rightarrow> BSONObj \<Rightarrow> bool) \<Rightarrow> BSONObj \<Rightarrow> string \<Rightarrow> Status + ChunkType" where
  "extractChunk keyLess source field =
     (case bsonExtractTypedField source field Object_type of
        Inl status \<Rightarrow> Inl status
      | Inr fieldElement \<Rightarrow>
          (case fieldElement of
             BObject fieldObj \<Rightarrow>
               (case ChunkRange_fromBSON keyLess fieldObj of
                  Inl status \<Rightarrow> Inl status
                | Inr rangeWith \<Rightarrow>
                    (case ChunkVersion_parse (getField fieldObj lastmod) of
                       Inl ex \<Rightarrow> Inl ex
                     | Inr version \<Rightarrow>
                         if \<not> isSet version
                         then Inl \<lparr>code = Location 644490, reason = ''Version must be set''\<rparr>
                         else Inr \<lparr>getMin = minKey rangeWith, getMax = maxKey rangeWith,
                                   getVersion = version\<rparr>))
           | _ \<Rightarrow> Inl \<lparr>code = TypeMismatch, reason = ''Wrong type for field '' @ field\<rparr>))"

text \<open>\<open>extractShardId\<close>: a shard identifier from \<open>field\<close> in \<open>source\<close>.\<close>

definition extractShardId :: "BSONObj \<Rightarrow> string \<Rightarrow> Status + ShardId" where
  "extractShardId source field =
     (case bsonExtractStringField source field of
        Inl status \<Rightarrow> Inl status
      | Inr stringResult \<Rightarrow>
          if stringResult = []
          then Inl \<lparr>code = UnsupportedFormat,
                    reason = ''The field '' @ [CHR 0x27] @ field @ [CHR 0x27] @ '' cannot be empty''\<rparr>
          else Inr stringResult)"

definition createFromCommand ::
  "(BSONObj \<Rightarrow> BSONObj \<Rightarrow> bool) \<Rightarrow> NamespaceString \<Rightarrow> BSONObj \<Rightarrow> Status + CommitChunkMigrationRequest" where
  "createFromCommand keyLess n obj =
     (case extractChunk keyLess obj kMigratedChunk of
        Inl status \<Rightarrow> Inl status
      | Inr migratedChunk \<Rightarrow>
          (let request = newRequest n migratedChunk in
           case extractShardId obj kFromShard of
             Inl status \<Rightarrow> Inl status
           | Inr fromShard \<Rightarrow>
               (let request = request\<lparr>m_fromShard := fromShard\<rparr> in
                case extractShardId obj kToShard of
                  Inl status \<Rightarrow> Inl status
                | Inr toShard \<Rightarrow>
                    (let request = request\<lparr>m_toShard := toShard\<rparr> in
                     case ChunkVersion_parse (getField obj kFromShardCollectionVersion) of
                       Inl ex \<Rightarrow> Inl ex
                     | Inr fromShardVersion \<Rightarrow>
                         (let request = request\<lparr>m_collectionEpoch := epoch fromShardVersion,
                                                 m_collectionTimestamp := getTimestamp fromShardVersion\<rparr> in
                          case bsonExtractTimestampField obj kValidAfter of
                            Inl status \<Rightarrow>
                              if code status \<noteq> NoSuchKey then Inl status
                              else Inr (request\<lparr>m_validAfter := None\<rparr>)
                          | Inr validAfter \<Rightarrow> Inr (request\<lparr>m_validAfter := Some validAfter\<rparr>))))))"

text \<open>
  \<open>appendAsCommand\<close> returns nothing and writes into the builder; a failed \<open>invariant\<close>
  aborts the process. The model returns the builder after the call, or
  \<open>InvariantFailure\<close>.
\<close>

datatype 'a fatal = InvariantFailure | Returns 'a

definition appendAsCommand ::
  "(NamespaceString \<Rightarrow> bool) \<Rightarrow> BSONObjBuilder \<Rightarrow> NamespaceString \<Rightarrow> ShardId \<Rightarrow> ShardId \<Rightarrow>
   ChunkType \<Rightarrow> ChunkVersion \<Rightarrow> Timestamp \<Rightarrow> BSONObjBuilder fatal" where
  "appendAsCommand isValid builder n fromShard toShard migratedChunk fromShardCollectionVersion validAfter =
     (if \<not> isEmpty (asTempObj builder) then InvariantFailure
      else if \<not> isValid n then InvariantFailure
      else
        (let b1 = appendElement builder kConfigSvrCommitChunkMigration (BString (ns n));
             b2 = appendElement b1 kFromShard (BString fromShard);
             b3 = appendElement b2 kToShard (BString toShard);
             migrateChunk = serializeToBSON (getVersion migratedChunk) lastmod
                              (ChunkRange_append (getRange migratedChunk) []);
             b4 = appendElement b3 kMigratedChunk (BObject migrateChunk);
             b5 = serializeToBSON fromShardCollectionVersion kFromShardCollectionVersion b4
         in Returns (appendElement b5 kValidAfter (BTimestamp validAfter))))"

section \<open>The shard key refinement coordinator\<close>

text \<open>
  \<open>src/mongo/db/s/refine_collection_shard_key_coordinator.h\<close> declares the coordinator
  and its members; the bodies of \<open>checkIfOptionsConflict\<close> and \<open>reportForCurrentOp\<close>,
  the state document and the phase enumeration are not among the source files.
\<close>

type_synonym KeyPattern = BSONObj

type_synonym UUID = "128 word"

text \<open>
  Modelled from the spec: the phase enumeration
  \<open>RefineCollectionShardKeyCoordinatorPhaseEnum\<close> and its serializer (absent). The
  phases are \<open>ValidateAndFreeze\<close>, \<open>CommitNewKey\<close> and \<open>Done\<close>.
\<close>

datatype Phase = ValidateAndFreeze | CommitNewKey | Done

fun serializePhase :: "Phase \<Rightarrow> string" where
  "serializePhase ValidateAndFreeze = ''ValidateAndFreeze''"
| "serializePhase CommitNewKey = ''CommitNewKey''"
| "serializePhase Done = ''Done''"

text \<open>
  Modelled from the spec: \<open>RefineCollectionShardKeyCoordinatorDocument\<close> (absent), the
  persisted document of one operation: the collection it is about, its phase, and its
  parameters (previous shard key, requested shard key, collection UUID if known).
\<close>

record StateDoc =
  d_nss :: NamespaceString
  d_phase :: Phase
  d_oldShardKey :: KeyPattern
  d_newShardKey :: KeyPattern
  d_collectionUUID :: "UUID option"

text \<open>
  The coordinator: the members the header declares (\<open>_newShardKey\<close>, \<open>_oldShardKey\<close>,
  \<open>_collectionUUID\<close>) and, modelled from the spec, the in-flight document its base
  class holds.
\<close>

record RefineCollectionShardKeyCoordinator =
  m_doc :: StateDoc
  m_newShardKey :: KeyPattern
  m_oldShardKey :: KeyPattern
  m_collectionUUID :: "UUID option"

text \<open>
  Modelled from the spec: \<open>RefineCollectionShardKeyCoordinator::checkIfOptionsConflict\<close>
  (only declared in the header). The parameters of a freshly arrived request are compared
  with those of the in-flight document field by field (namespace, old key, new key); a
  mismatch throws a conflicting-operation error. The method is \<open>const\<close>: the coordinator
  is not changed.
\<close>

definition checkIfOptionsConflict :: "RefineCollectionShardKeyCoordinator \<Rightarrow> StateDoc \<Rightarrow> Status + unit" where
  "checkIfOptionsConflict coordinator coorDoc =
     (if d_nss coorDoc = d_nss (m_doc coordinator)
         \<and> d_oldShardKey coorDoc = d_oldShardKey (m_doc coordinator)
         \<and> d_newShardKey coorDoc = d_newShardKey (m_doc coordinator)
      then Inr ()
      else Inl \<lparr>code = ConflictingOperation,
                reason = ''Another refine collection with different arguments is already running''\<rparr>)"

text \<open>
  Modelled from the spec: the two modes of \<open>MongoProcessInterface\<close> (absent) that
  \<open>reportForCurrentOp\<close> takes, and the names of the fields of its report.
\<close>

datatype CurrentOpConnectionsMode = kIncludeIdleConnections | kExcludeIdleConnections

datatype CurrentOpSessionsMode = kIncludeIdleSessions | kExcludeIdleSessions

definition kReportNs :: string where
  "kReportNs = ''ns''"

definition kReportPhase :: string where
  "kReportPhase = ''phase''"

definition kReportNewShardKey :: string where
  "kReportNewShardKey = ''newShardKey''"

definition kReportCollectionUUID :: string where
  "kReportCollectionUUID = ''collectionUUID''"

text \<open>
  Modelled from the spec: \<open>RefineCollectionShardKeyCoordinator::reportForCurrentOp\<close>
  (only declared in the header, \<open>noexcept\<close>). The report is a snapshot of the namespace,
  the phase and the requested key, whatever the two modes are; the collection UUID is
  optional context, reported when it is known and left out when it is not. The result is
  \<open>Inl\<close> for an exception, \<open>Inr\<close> for the optional report.
\<close>

definition reportForCurrentOp ::
  "RefineCollectionShardKeyCoordinator \<Rightarrow> CurrentOpConnectionsMode \<Rightarrow> CurrentOpSessionsMode \<Rightarrow>
   Status + BSONObj option" where
  "reportForCurrentOp coordinator connMode sessionMode =
     (let b1 = appendElement [] kReportNs (BString (ns (d_nss (m_doc coordinator))));
          b2 = appendElement b1 kReportPhase (BString (serializePhase (d_phase (m_doc coordinator))));
          b3 = appendElement b2 kReportNewShardKey (BObject (m_newShardKey coordinator))
      in Inr (Some (case m_collectionUUID coordinator of
                      None \<Rightarrow> b3
                    | Some uuid \<Rightarrow> appendElement b3 kReportCollectionUUID (BUUID uuid))))"

section \<open>Instances of the absent predicates, for concrete inputs\<close>

text \<open>
  An ordering of keys for the examples: keys whose fields hold 64-bit integers, compared
  field by field as signed numbers; a proper prefix comes first.
\<close>

fun longKeyLess :: "BSONObj \<Rightarrow> BSONObj \<Rightarrow> bool" where
  "longKeyLess ((f, BLong a) # xs) ((g, BLong b) # ys) =
     (sint a < sint b \<or> (a = b \<and> longKeyLess xs ys))"
| "longKeyLess [] (y # ys) = True"
| "longKeyLess xs ys = False"

text \<open>
  A validity check of namespaces for the examples: a database name, a dot and a
  collection name, neither name empty.
\<close>

definition dottedName :: "NamespaceString \<Rightarrow> bool" where
  "dottedName n =
     (takeWhile (\<lambda>c. c \<noteq> CHR ''.'') n \<noteq> [] \<and> 1 < length (dropWhile (\<lambda>c. c \<noteq> CHR ''.'') n))"

section \<open>Concrete commit messages\<close>

text \<open>
  A chunk over the keys \<open>{x: 0}\<close> to \<open>{x: 100}\<close>, a collection version, and the
  message with the layout the serializer writes, with each field given separately so
  that a single field can be replaced by a defective one.
\<close>

definition exampleNss :: NamespaceString where
  "exampleNss = ''test.coll''"

definition exampleChunk :: ChunkType where
  "exampleChunk =
     \<lparr>getMin = [(''x'', BLong 0)], getMax = [(''x'', BLong 100)],
      getVersion = \<lparr>epoch = 7, getTimestamp = 11, counter = 3\<rparr>\<rparr>"

definition exampleVersion :: ChunkVersion where
  "exampleVersion = \<lparr>epoch = 7, getTimestamp = 11, counter = 5\<rparr>"

definition chunkObject :: "BSONObj \<Rightarrow> BSONObj \<Rightarrow> (string \<times> BSONElement) list \<Rightarrow> BSONElement" where
  "chunkObject mn mx versionField = BObject ([(kMinKey, BObject mn), (kMaxKey, BObject mx)] @ versionField)"

definition exampleChunkObject :: BSONElement where
  "exampleChunkObject =
     chunkObject (getMin exampleChunk) (getMax exampleChunk)
       [(lastmod, BObject (ChunkVersion_toBSON (getVersion exampleChunk)))]"

definition commitMessage ::
  "BSONElement \<Rightarrow> BSONElement \<Rightarrow> BSONElement \<Rightarrow> BSONElement \<Rightarrow> (string \<times> BSONElement) list \<Rightarrow> BSONObj" where
  "commitMessage fromShard toShard chunk collectionVersion validAfterField =
     [(kConfigSvrCommitChunkMigration, BString (ns exampleNss)),
      (kFromShard, fromShard),
      (kToShard, toShard),
      (kMigratedChunk, chunk),
      (kFromShardCollectionVersion, collectionVersion)] @ validAfterField"

text \<open>A coordinator refining the key \<open>{a: 1}\<close> to \<open>{a: 1, b: 1}\<close>, and its document.\<close>

definition exampleDoc :: StateDoc where
  "exampleDoc =
     \<lparr>d_nss = exampleNss, d_phase = ValidateAndFreeze, d_oldShardKey = [(''a'', BLong 1)],
      d_newShardKey = [(''a'', BLong 1), (''b'', BLong 1)], d_collectionUUID = None\<rparr>"

definition exampleCoordinator :: RefineCollectionShardKeyCoordinator where
  "exampleCoordinator =
     \<lparr>m_doc = exampleDoc, m_newShardKey = d_newShardKey exampleDoc,
      m_oldShardKey = d_oldShardKey exampleDoc, m_collectionUUID = None\<rparr>"

section \<open>Properties of the extraction steps\<close>

text \<open>
  What each extraction step returns on a field of a given shape, and what a successful
  step says about the field it read. The theorems about the parser and the serializer
  are assembled from these.
\<close>

lemmas field_names = kConfigSvrCommitChunkMigration_def kFromShard_def kToShard_def kMigratedChunk_def
  kFromShardCollectionVersion_def kValidAfter_def kMinKey_def kMaxKey_def lastmod_def kEpoch_def
  kTimestamp_def kCounter_def

text \<open>The encoding of a version is read back unchanged.\<close>

lemma ChunkVersion_parse_toBSON:
  "ChunkVersion_parse (Some (BObject (ChunkVersion_toBSON v))) = Inr v"
  by (simp add: ChunkVersion_parse_def ChunkVersion_toBSON_def getField_def field_names)

text \<open>The message the serializer writes into an empty builder for a valid namespace.\<close>

lemma appendAsCommand_message:
  "isEmpty (asTempObj builder) \<Longrightarrow> isValid n \<Longrightarrow>
   appendAsCommand isValid builder n fromShard toShard chunk v ts =
     Returns
       [(kConfigSvrCommitChunkMigration, BString (ns n)),
        (kFromShard, BString fromShard),
        (kToShard, BString toShard),
        (kMigratedChunk,
           BObject [(kMinKey, BObject (getMin chunk)), (kMaxKey, BObject (getMax chunk)),
                    (lastmod, BObject (ChunkVersion_toBSON (getVersion chunk)))]),
        (kFromShardCollectionVersion, BObject (ChunkVersion_toBSON v)),
        (kValidAfter, BTimestamp ts)]"
  by (simp add: appendAsCommand_def isEmpty_def asTempObj_def appendElement_def serializeToBSON_def
      ChunkRange_append_def getRange_def Let_def)

lemma extractChunk_serialized:
  assumes "getField obj kMigratedChunk =
             Some (BObject [(kMinKey, BObject (getMin chunk)), (kMaxKey, BObject (getMax chunk)),
                            (lastmod, BObject (ChunkVersion_toBSON (getVersion chunk)))])"
    and "keyLess (getMin chunk) (getMax chunk)" and "isSet (getVersion chunk)"
  shows "extractChunk keyLess obj kMigratedChunk = Inr chunk"
proof -
  let ?c = "[(kMinKey, BObject (getMin chunk)), (kMaxKey, BObject (getMax chunk)),
             (lastmod, BObject (ChunkVersion_toBSON (getVersion chunk)))]"
  have r: "ChunkRange_fromBSON keyLess ?c = Inr \<lparr>minKey = getMin chunk, maxKey = getMax chunk\<rparr>"
    using assms(2)
    by (simp add: ChunkRange_fromBSON_def bsonExtractTypedField_def getField_def kMinKey_def kMaxKey_def)
  have v: "ChunkVersion_parse (getField ?c lastmod) = Inr (getVersion chunk)"
    using ChunkVersion_parse_toBSON [of "getVersion chunk"]
    by (simp add: getField_def kMinKey_def kMaxKey_def lastmod_def)
  show ?thesis
    unfolding extractChunk_def
    using assms(1,3) r v by (simp add: bsonExtractTypedField_def)
qed

lemma bsonExtractTimestampField_absent:
  "getField obj field = None \<Longrightarrow>
   bsonExtractTimestampField obj field = Inl \<lparr>code = NoSuchKey, reason = ''Missing expected field '' @ field\<rparr>"
  by (simp add: bsonExtractTimestampField_def bsonExtractTypedField_def)

lemma bsonExtractTimestampField_present:
  "getField obj field = Some (BTimestamp ts) \<Longrightarrow> bsonExtractTimestampField obj field = Inr ts"
  by (simp add: bsonExtractTimestampField_def bsonExtractTypedField_def)

lemma bsonExtractTimestampField_Inl:
  "bsonExtractTimestampField obj field = Inl status \<Longrightarrow>
     (code status = NoSuchKey \<and> getField obj field = None) \<or>
     (code status = TypeMismatch \<and> (\<exists>e. getField obj field = Some e \<and> elementType e \<noteq> Timestamp_type))"
  by (auto simp: bsonExtractTimestampField_def bsonExtractTypedField_def
      split: option.splits if_splits BSONElement.splits)

lemma bsonExtractTimestampField_wrong_type:
  "getField obj field = Some e \<Longrightarrow> elementType e \<noteq> Timestamp_type \<Longrightarrow>
   bsonExtractTimestampField obj field = Inl \<lparr>code = TypeMismatch, reason = ''Wrong type for field '' @ field\<rparr>"
  by (simp add: bsonExtractTimestampField_def bsonExtractTypedField_def)

lemma extractShardId_present:
  "getField obj field = Some (BString s) \<Longrightarrow> s \<noteq> [] \<Longrightarrow> extractShardId obj field = Inr s"
  by (simp add: extractShardId_def bsonExtractStringField_def bsonExtractTypedField_def)

lemma extractShardId_empty:
  "getField obj field = Some (BString []) \<Longrightarrow>
   extractShardId obj field =
     Inl \<lparr>code = UnsupportedFormat,
          reason = ''The field '' @ [CHR 0x27] @ field @ [CHR 0x27] @ '' cannot be empty''\<rparr>"
  by (simp add: extractShardId_def bsonExtractStringField_def bsonExtractTypedField_def)

lemma extractShardId_Inr:
  "extractShardId obj field = Inr s \<Longrightarrow> getField obj field = Some (BString s) \<and> s \<noteq> []"
  by (auto simp: extractShardId_def bsonExtractStringField_def bsonExtractTypedField_def
      split: option.splits if_splits BSONElement.splits sum.splits)

text \<open>The parser's result when every step succeeds, with and without \<open>validAfter\<close>,
  and conversely what a returned request says about the steps.\<close>

lemma createFromCommand_present:
  assumes "extractChunk keyLess obj kMigratedChunk = Inr chunk"
    and "extractShardId obj kFromShard = Inr f"
    and "extractShardId obj kToShard = Inr t"
    and "ChunkVersion_parse (getField obj kFromShardCollectionVersion) = Inr v"
    and "bsonExtractTimestampField obj kValidAfter = Inr ts"
  shows "createFromCommand keyLess n obj =
           Inr \<lparr>m_nss = n, m_migratedChunk = chunk, m_fromShard = f, m_toShard = t,
                m_collectionEpoch = epoch v, m_collectionTimestamp = getTimestamp v,
                m_validAfter = Some ts\<rparr>"
  using assms by (simp add: createFromCommand_def newRequest_def)

lemma createFromCommand_absent:
  assumes "extractChunk keyLess obj kMigratedChunk = Inr chunk"
    and "extractShardId obj kFromShard = Inr f"
    and "extractShardId obj kToShard = Inr t"
    and "ChunkVersion_parse (getField obj kFromShardCollectionVersion) = Inr v"
    and "getField obj kValidAfter = None"
  shows "createFromCommand keyLess n obj =
           Inr \<lparr>m_nss = n, m_migratedChunk = chunk, m_fromShard = f, m_toShard = t,
                m_collectionEpoch = epoch v, m_collectionTimestamp = getTimestamp v,
                m_validAfter = None\<rparr>"
  using assms bsonExtractTimestampField_absent [OF assms(5)]
  by (simp add: createFromCommand_def newRequest_def)

lemma createFromCommand_InrD:
  assumes "createFromCommand keyLess n obj = Inr r"
  shows "\<exists>chunk f t v.
           extractChunk keyLess obj kMigratedChunk = Inr chunk \<and>
           extractShardId obj kFromShard = Inr f \<and>
           extractShardId obj kToShard = Inr t \<and>
           ChunkVersion_parse (getField obj kFromShardCollectionVersion) = Inr v \<and>
           ((\<exists>ts. bsonExtractTimestampField obj kValidAfter = Inr ts \<and> m_validAfter r = Some ts) \<or>
            (getField obj kValidAfter = None \<and> m_validAfter r = None)) \<and>
           r = \<lparr>m_nss = n, m_migratedChunk = chunk, m_fromShard = f, m_toShard = t,
                m_collectionEpoch = epoch v, m_collectionTimestamp = getTimestamp v,
                m_validAfter = m_validAfter r\<rparr>"
  using assms
  by (auto simp: createFromCommand_def newRequest_def Let_def
      split: sum.splits if_splits dest: bsonExtractTimestampField_Inl)

text \<open>The concrete messages: their chunk is well-formed, and the serialized example parses.\<close>

lemmas example_defs = exampleNss_def exampleChunk_def exampleVersion_def chunkObject_def
  exampleChunkObject_def commitMessage_def ChunkVersion_toBSON_def

lemma ex_chunk: "extractChunk longKeyLess (commitMessage a b exampleChunkObject c d) kMigratedChunk = Inr exampleChunk"
  by (simp add: extractChunk_def example_defs field_names getField_def bsonExtractTypedField_def
     ChunkRange_fromBSON_def ChunkVersion_parse_def isSet_def)

lemma extractChunk_InrD:
  assumes "extractChunk keyLess obj field = Inr chunk"
  shows "\<exists>c. getField obj field = Some (BObject c) \<and>
             getField c kMinKey = Some (BObject (getMin chunk)) \<and>
             getField c kMaxKey = Some (BObject (getMax chunk)) \<and>
             keyLess (getMin chunk) (getMax chunk) \<and>
             ChunkVersion_parse (getField c lastmod) = Inr (getVersion chunk) \<and>
             isSet (getVersion chunk)"
  using assms
  by (auto simp: extractChunk_def ChunkRange_fromBSON_def bsonExtractTypedField_def
      split: option.splits if_splits BSONElement.splits sum.splits)

lemma ChunkRange_fromBSON_unordered:
  "getField c kMinKey = Some (BObject mn) \<Longrightarrow> getField c kMaxKey = Some (BObject mx) \<Longrightarrow>
   \<not> keyLess mn mx \<Longrightarrow>
   ChunkRange_fromBSON keyLess c = Inl \<lparr>code = MalformedInput, reason = ''min should be less than max''\<rparr>"
  by (simp add: ChunkRange_fromBSON_def bsonExtractTypedField_def)

lemma extractChunk_range_error:
  "getField obj field = Some (BObject c) \<Longrightarrow> ChunkRange_fromBSON keyLess c = Inl status \<Longrightarrow>
   extractChunk keyLess obj field = Inl status"
  by (simp add: extractChunk_def bsonExtractTypedField_def)

lemma extractChunk_version_error:
  "getField obj field = Some (BObject c) \<Longrightarrow> ChunkRange_fromBSON keyLess c = Inr rg \<Longrightarrow>
   ChunkVersion_parse (getField c lastmod) = Inl ex \<Longrightarrow>
   extractChunk keyLess obj field = Inl ex"
  by (simp add: extractChunk_def bsonExtractTypedField_def)

lemma extractChunk_version_unset:
  "getField obj field = Some (BObject c) \<Longrightarrow> ChunkRange_fromBSON keyLess c = Inr rg \<Longrightarrow>
   ChunkVersion_parse (getField c lastmod) = Inr v \<Longrightarrow> \<not> isSet v \<Longrightarrow>
   extractChunk keyLess obj field = Inl \<lparr>code = Location 644490, reason = ''Version must be set''\<rparr>"
  by (simp add: extractChunk_def bsonExtractTypedField_def)

lemma createFromCommand_chunk_error:
  "extractChunk keyLess obj kMigratedChunk = Inl status \<Longrightarrow> createFromCommand keyLess n obj = Inl status"
  by (simp add: createFromCommand_def)

lemma ChunkVersion_parse_missing: "ChunkVersion_parse None = Inl versionParseError"
  by (simp add: ChunkVersion_parse_def)

lemma example_serialized:
  "appendAsCommand dottedName [] exampleNss ''s1'' ''s2'' exampleChunk v 42 =
     Returns (commitMessage (BString ''s1'') (BString ''s2'') exampleChunkObject
                (BObject (ChunkVersion_toBSON v)) [(kValidAfter, BTimestamp 42)])"
  by (simp add: appendAsCommand_def isEmpty_def asTempObj_def appendElement_def serializeToBSON_def
      ChunkRange_append_def getRange_def Let_def dottedName_def exampleNss_def commitMessage_def
      exampleChunkObject_def chunkObject_def)

lemma example_parsed:
  "createFromCommand longKeyLess exampleNss
     (commitMessage (BString ''s1'') (BString ''s2'') exampleChunkObject
        (BObject (ChunkVersion_toBSON v)) [(kValidAfter, BTimestamp 42)]) =
   Inr \<lparr>m_nss = exampleNss, m_migratedChunk = exampleChunk, m_fromShard = ''s1'', m_toShard = ''s2'',
        m_collectionEpoch = epoch v, m_collectionTimestamp = getTimestamp v, m_validAfter = Some 42\<rparr>"
proof -
  let ?m = "commitMessage (BString ''s1'') (BString ''s2'') exampleChunkObject
        (BObject (ChunkVersion_toBSON v)) [(kValidAfter, BTimestamp 42)]"
  have f: "extractShardId ?m kFromShard = Inr ''s1''"
    by (rule extractShardId_present) (simp_all add: commitMessage_def getField_def field_names)
  have t: "extractShardId ?m kToShard = Inr ''s2''"
    by (rule extractShardId_present) (simp_all add: commitMessage_def getField_def field_names)
  have fv: "ChunkVersion_parse (getField ?m kFromShardCollectionVersion) = Inr v"
    using ChunkVersion_parse_toBSON [of v]
    by (simp add: commitMessage_def getField_def kConfigSvrCommitChunkMigration_def kFromShard_def
        kToShard_def kMigratedChunk_def kFromShardCollectionVersion_def)
  have va: "bsonExtractTimestampField ?m kValidAfter = Inr 42"
    by (rule bsonExtractTimestampField_present) (simp add: commitMessage_def getField_def field_names)
  show ?thesis by (rule createFromCommand_present [OF ex_chunk f t fv va])
qed

text \<open>The chunk step succeeds on a nested object with ordered boundaries and a set version.\<close>

lemma extractChunk_fields:
  assumes "getField obj field = Some (BObject c)"
    and "getField c kMinKey = Some (BObject mn)"
    and "getField c kMaxKey = Some (BObject mx)"
    and "keyLess mn mx"
    and "ChunkVersion_parse (getField c lastmod) = Inr cv"
    and "isSet cv"
  shows "extractChunk keyLess obj field = Inr \<lparr>getMin = mn, getMax = mx, getVersion = cv\<rparr>"
  using assms
  by (simp add: extractChunk_def ChunkRange_fromBSON_def bsonExtractTypedField_def)

section \<open>C1: parsing a serialized message\<close>

text \<open>
  C1. For every valid tuple (a namespace \<open>isValid\<close> accepts, an empty builder, non-empty
  \<open>fromShard\<close> and \<open>toShard\<close>, a chunk with \<open>min < max\<close> and a set version, any
  \<open>fromShardCollectionVersion\<close> and \<open>validAfter\<close>), parsing the message that
  \<open>appendAsCommand\<close> produces, for the same namespace, succeeds. The request it
  returns holds the namespace, the chunk, the two shard identifiers and \<open>validAfter\<close> of
  the tuple, and of \<open>fromShardCollectionVersion\<close> its epoch and its timestamp; the request
  has no member for the counter of that version.
\<close>

theorem parse_serialize_request:
  assumes "isEmpty (asTempObj builder)" and "isValid n"
    and "fromShard \<noteq> []" and "toShard \<noteq> []"
    and "keyLess (getMin chunk) (getMax chunk)" and "isSet (getVersion chunk)"
    and "appendAsCommand isValid builder n fromShard toShard chunk v ts = Returns msg"
  shows "createFromCommand keyLess n msg =
           Inr \<lparr>m_nss = n, m_migratedChunk = chunk, m_fromShard = fromShard, m_toShard = toShard,
                m_collectionEpoch = epoch v, m_collectionTimestamp = getTimestamp v,
                m_validAfter = Some ts\<rparr>"
proof -
  have msg: "msg =
       [(kConfigSvrCommitChunkMigration, BString (ns n)),
        (kFromShard, BString fromShard),
        (kToShard, BString toShard),
        (kMigratedChunk,
           BObject [(kMinKey, BObject (getMin chunk)), (kMaxKey, BObject (getMax chunk)),
                    (lastmod, BObject (ChunkVersion_toBSON (getVersion chunk)))]),
        (kFromShardCollectionVersion, BObject (ChunkVersion_toBSON v)),
        (kValidAfter, BTimestamp ts)]"
    using assms(7) appendAsCommand_message [where isValid = isValid and n = n, OF assms(1,2)] by simp
  have c: "extractChunk keyLess msg kMigratedChunk = Inr chunk"
    by (rule extractChunk_serialized [where keyLess = keyLess and chunk = chunk, OF _ assms(5,6)])
       (simp add: msg getField_def kConfigSvrCommitChunkMigration_def kFromShard_def kToShard_def
          kMigratedChunk_def)
  have f: "extractShardId msg kFromShard = Inr fromShard"
    by (rule extractShardId_present [OF _ assms(3)])
       (simp add: msg getField_def kConfigSvrCommitChunkMigration_def kFromShard_def)
  have t: "extractShardId msg kToShard = Inr toShard"
    by (rule extractShardId_present [OF _ assms(4)])
       (simp add: msg getField_def kConfigSvrCommitChunkMigration_def kFromShard_def kToShard_def)
  have fv: "ChunkVersion_parse (getField msg kFromShardCollectionVersion) = Inr v"
    using ChunkVersion_parse_toBSON [of v]
    by (simp add: msg getField_def kConfigSvrCommitChunkMigration_def kFromShard_def kToShard_def
          kMigratedChunk_def kFromShardCollectionVersion_def)
  have va: "bsonExtractTimestampField msg kValidAfter = Inr ts"
    by (rule bsonExtractTimestampField_present)
       (simp add: msg getField_def kConfigSvrCommitChunkMigration_def kFromShard_def kToShard_def
          kMigratedChunk_def kFromShardCollectionVersion_def kValidAfter_def)
  show ?thesis by (rule createFromCommand_present [OF c f t fv va])
qed

text \<open>C1 at the example tuple: every hypothesis holds there, and the message parses.\<close>

theorem parse_serialize_request_witness:
  "isEmpty (asTempObj []) \<and> dottedName exampleNss \<and> ''s1'' \<noteq> [] \<and> ''s2'' \<noteq> [] \<and>
   longKeyLess (getMin exampleChunk) (getMax exampleChunk) \<and> isSet (getVersion exampleChunk) \<and>
   appendAsCommand dottedName [] exampleNss ''s1'' ''s2'' exampleChunk exampleVersion 42 =
     Returns (commitMessage (BString ''s1'') (BString ''s2'') exampleChunkObject
                (BObject (ChunkVersion_toBSON exampleVersion)) [(kValidAfter, BTimestamp 42)]) \<and>
   createFromCommand longKeyLess exampleNss
     (commitMessage (BString ''s1'') (BString ''s2'') exampleChunkObject
        (BObject (ChunkVersion_toBSON exampleVersion)) [(kValidAfter, BTimestamp 42)]) =
   Inr \<lparr>m_nss = exampleNss, m_migratedChunk = exampleChunk, m_fromShard = ''s1'', m_toShard = ''s2'',
        m_collectionEpoch = epoch exampleVersion, m_collectionTimestamp = getTimestamp exampleVersion,
        m_validAfter = Some 42\<rparr>"
proof -
  have a: "isEmpty (asTempObj [])" by (simp add: isEmpty_def asTempObj_def)
  have b: "dottedName exampleNss" by (simp add: dottedName_def exampleNss_def)
  have c: "longKeyLess (getMin exampleChunk) (getMax exampleChunk)" by (simp add: exampleChunk_def)
  have d: "isSet (getVersion exampleChunk)" by (simp add: isSet_def exampleChunk_def)
  have e: "''s1'' \<noteq> []" "''s2'' \<noteq> []" by simp_all
  note s = example_serialized [of exampleVersion]
  from parse_serialize_request [where isValid = dottedName and keyLess = longKeyLess, OF a b e c d s] a b c d e s
  show ?thesis by simp
qed

text \<open>
  C1 read as an identity, \<open>parse(serialize(x)) == x\<close>, does not hold: two tuples that
  differ in the counter of \<open>fromShardCollectionVersion\<close> (5 and 9) are serialized to
  two messages, and both messages parse to one and the same request. The request
  therefore does not determine the tuple it was serialized from.
\<close>

theorem parse_serialize_loses_counter:
  "appendAsCommand dottedName [] exampleNss ''s1'' ''s2'' exampleChunk exampleVersion 42 =
     Returns (commitMessage (BString ''s1'') (BString ''s2'') exampleChunkObject
                (BObject (ChunkVersion_toBSON exampleVersion)) [(kValidAfter, BTimestamp 42)])
   \<and> appendAsCommand dottedName [] exampleNss ''s1'' ''s2'' exampleChunk (exampleVersion\<lparr>counter := 9\<rparr>) 42 =
     Returns (commitMessage (BString ''s1'') (BString ''s2'') exampleChunkObject
                (BObject (ChunkVersion_toBSON (exampleVersion\<lparr>counter := 9\<rparr>)))
                [(kValidAfter, BTimestamp 42)])
   \<and> createFromCommand longKeyLess exampleNss
        (commitMessage (BString ''s1'') (BString ''s2'') exampleChunkObject
           (BObject (ChunkVersion_toBSON exampleVersion)) [(kValidAfter, BTimestamp 42)]) =
      Inr \<lparr>m_nss = exampleNss, m_migratedChunk = exampleChunk, m_fromShard = ''s1'',
           m_toShard = ''s2'', m_collectionEpoch = 7, m_collectionTimestamp = 11,
           m_validAfter = Some 42\<rparr>
   \<and> createFromCommand longKeyLess exampleNss
        (commitMessage (BString ''s1'') (BString ''s2'') exampleChunkObject
           (BObject (ChunkVersion_toBSON (exampleVersion\<lparr>counter := 9\<rparr>)))
           [(kValidAfter, BTimestamp 42)]) =
      Inr \<lparr>m_nss = exampleNss, m_migratedChunk = exampleChunk, m_fromShard = ''s1'',
           m_toShard = ''s2'', m_collectionEpoch = 7, m_collectionTimestamp = 11,
           m_validAfter = Some 42\<rparr>
   \<and> exampleVersion \<noteq> exampleVersion\<lparr>counter := 9\<rparr>"
  by (simp add: example_serialized example_parsed exampleVersion_def)

section \<open>C2: a handover from a shard to itself\<close>

text \<open>
  C2. The parser does not compare \<open>fromShard\<close> with \<open>toShard\<close>. For every inbound
  message in which the two are the same non-empty identifier, and whose \<open>migratedChunk\<close>
  and \<open>fromShardCollectionVersion\<close> are well-formed and whose \<open>validAfter\<close> is a
  timestamp or absent, parsing succeeds and returns a request whose \<open>fromShard\<close> and
  \<open>toShard\<close> are both that identifier. The parser is a function of the namespace and
  the message alone: it reads no catalog.
\<close>

theorem createFromCommand_same_shard_accepted:
  assumes "getField obj kFromShard = Some (BString s)"
    and "getField obj kToShard = Some (BString s)"
    and "s \<noteq> []"
    and "extractChunk keyLess obj kMigratedChunk = Inr chunk"
    and "ChunkVersion_parse (getField obj kFromShardCollectionVersion) = Inr v"
    and "getField obj kValidAfter = None \<or> (\<exists>ts. getField obj kValidAfter = Some (BTimestamp ts))"
  shows "\<exists>va. createFromCommand keyLess n obj =
           Inr \<lparr>m_nss = n, m_migratedChunk = chunk, m_fromShard = s, m_toShard = s,
                m_collectionEpoch = epoch v, m_collectionTimestamp = getTimestamp v,
                m_validAfter = va\<rparr>"
proof -
  have f: "extractShardId obj kFromShard = Inr s"
    by (rule extractShardId_present [OF assms(1,3)])
  have t: "extractShardId obj kToShard = Inr s"
    by (rule extractShardId_present [OF assms(2,3)])
  from assms(6) show ?thesis
  proof
    assume "getField obj kValidAfter = None"
    then show ?thesis
      using createFromCommand_absent [OF assms(4) f t assms(5), of n] by blast
  next
    assume "\<exists>ts. getField obj kValidAfter = Some (BTimestamp ts)"
    then obtain ts where "getField obj kValidAfter = Some (BTimestamp ts)" ..
    then have "bsonExtractTimestampField obj kValidAfter = Inr ts"
      by (rule bsonExtractTimestampField_present)
    then show ?thesis
      using createFromCommand_present [OF assms(4) f t assms(5), of ts n] by blast
  qed
qed

text \<open>C2 at a message from \<open>s1\<close> to \<open>s1\<close> without \<open>validAfter\<close>.\<close>

theorem createFromCommand_same_shard_accepted_witness:
  "\<exists>va. createFromCommand longKeyLess exampleNss
     (commitMessage (BString ''s1'') (BString ''s1'') exampleChunkObject
        (BObject (ChunkVersion_toBSON exampleVersion)) []) =
   Inr \<lparr>m_nss = exampleNss, m_migratedChunk = exampleChunk, m_fromShard = ''s1'', m_toShard = ''s1'',
        m_collectionEpoch = epoch exampleVersion, m_collectionTimestamp = getTimestamp exampleVersion,
        m_validAfter = va\<rparr>"
proof -
  let ?m = "commitMessage (BString ''s1'') (BString ''s1'') exampleChunkObject
        (BObject (ChunkVersion_toBSON exampleVersion)) []"
  have f: "getField ?m kFromShard = Some (BString ''s1'')"
    by (simp add: commitMessage_def getField_def field_names)
  have t: "getField ?m kToShard = Some (BString ''s1'')"
    by (simp add: commitMessage_def getField_def field_names)
  have ne: "''s1'' \<noteq> []" by simp
  have fv: "ChunkVersion_parse (getField ?m kFromShardCollectionVersion) = Inr exampleVersion"
    using ChunkVersion_parse_toBSON [of exampleVersion]
    by (simp add: commitMessage_def getField_def kConfigSvrCommitChunkMigration_def kFromShard_def
        kToShard_def kMigratedChunk_def kFromShardCollectionVersion_def)
  have va: "getField ?m kValidAfter = None \<or> (\<exists>ts. getField ?m kValidAfter = Some (BTimestamp ts))"
    by (simp add: commitMessage_def getField_def field_names)
  show ?thesis
    by (rule createFromCommand_same_shard_accepted [OF f t ne ex_chunk fv va])
qed

text \<open>
  C2 as a rejection does not hold: the message with \<open>fromShard = s1\<close> and
  \<open>toShard = s1\<close> is parsed without error.
\<close>

theorem createFromCommand_same_shard_counterexample:
  "getField (commitMessage (BString ''s1'') (BString ''s1'') exampleChunkObject
        (BObject (ChunkVersion_toBSON exampleVersion)) [(kValidAfter, BTimestamp 42)]) kFromShard =
     Some (BString ''s1'')
   \<and> getField (commitMessage (BString ''s1'') (BString ''s1'') exampleChunkObject
        (BObject (ChunkVersion_toBSON exampleVersion)) [(kValidAfter, BTimestamp 42)]) kToShard =
     Some (BString ''s1'')
   \<and> createFromCommand longKeyLess exampleNss
     (commitMessage (BString ''s1'') (BString ''s1'') exampleChunkObject
        (BObject (ChunkVersion_toBSON exampleVersion)) [(kValidAfter, BTimestamp 42)]) =
   Inr \<lparr>m_nss = exampleNss, m_migratedChunk = exampleChunk, m_fromShard = ''s1'', m_toShard = ''s1'',
        m_collectionEpoch = 7, m_collectionTimestamp = 11, m_validAfter = Some 42\<rparr>"
  by (simp add: createFromCommand_def newRequest_def extractShardId_def bsonExtractStringField_def
     bsonExtractTimestampField_def
     extractChunk_def example_defs field_names getField_def bsonExtractTypedField_def
     ChunkRange_fromBSON_def ChunkVersion_parse_def isSet_def)

section \<open>C3: rejection of defective messages\<close>

text \<open>
  C3. The parser extracts \<open>migratedChunk\<close> (its range, then its version), \<open>fromShard\<close>,
  \<open>toShard\<close>, \<open>fromShardCollectionVersion\<close> and \<open>validAfter\<close>, in this order, and
  returns the error of the first step that fails. For each defect, when the fields
  extracted before it are well-formed, the error is the one of that defect:
  \<^item> a range with \<open>min >= max\<close>: the error of \<open>ChunkRange::fromBSON\<close>;
  \<^item> a chunk without a version: the exception of \<open>ChunkVersion::parse\<close>;
  \<^item> a chunk whose version is not set: code 644490, \<open>Version must be set\<close>;
  \<^item> an empty \<open>fromShard\<close> or \<open>toShard\<close>: \<open>UnsupportedFormat\<close>, naming the field;
  \<^item> a malformed \<open>fromShardCollectionVersion\<close>: the exception of \<open>ChunkVersion::parse\<close>;
  \<^item> a \<open>validAfter\<close> that is present and not a timestamp: the error of
    \<open>bsonExtractTimestampField\<close>, which is not \<open>NoSuchKey\<close>.
  A message without \<open>validAfter\<close> and no defect is accepted, and the request has no
  \<open>validAfter\<close>. Last conjunct: a message with any of the defects, whatever its other
  fields are, is rejected.
\<close>

theorem createFromCommand_rejects:
  "(getField obj kMigratedChunk = Some (BObject c) \<and> getField c kMinKey = Some (BObject mn) \<and>
    getField c kMaxKey = Some (BObject mx) \<and> \<not> keyLess mn mx \<longrightarrow>
      createFromCommand keyLess n obj =
        Inl \<lparr>code = MalformedInput, reason = ''min should be less than max''\<rparr>)
   \<and> (getField obj kMigratedChunk = Some (BObject c) \<and> ChunkRange_fromBSON keyLess c = Inr rg \<and>
       getField c lastmod = None \<longrightarrow>
      createFromCommand keyLess n obj = Inl versionParseError)
   \<and> (getField obj kMigratedChunk = Some (BObject c) \<and> ChunkRange_fromBSON keyLess c = Inr rg \<and>
       ChunkVersion_parse (getField c lastmod) = Inr cv \<and> \<not> isSet cv \<longrightarrow>
      createFromCommand keyLess n obj =
        Inl \<lparr>code = Location 644490, reason = ''Version must be set''\<rparr>)
   \<and> (extractChunk keyLess obj kMigratedChunk = Inr chunk \<and>
       getField obj kFromShard = Some (BString []) \<longrightarrow>
      createFromCommand keyLess n obj =
        Inl \<lparr>code = UnsupportedFormat,
             reason = ''The field '' @ [CHR 0x27] @ kFromShard @ [CHR 0x27] @ '' cannot be empty''\<rparr>)
   \<and> (extractChunk keyLess obj kMigratedChunk = Inr chunk \<and>
       extractShardId obj kFromShard = Inr f \<and>
       getField obj kToShard = Some (BString []) \<longrightarrow>
      createFromCommand keyLess n obj =
        Inl \<lparr>code = UnsupportedFormat,
             reason = ''The field '' @ [CHR 0x27] @ kToShard @ [CHR 0x27] @ '' cannot be empty''\<rparr>)
   \<and> (extractChunk keyLess obj kMigratedChunk = Inr chunk \<and>
       extractShardId obj kFromShard = Inr f \<and> extractShardId obj kToShard = Inr t \<and>
       ChunkVersion_parse (getField obj kFromShardCollectionVersion) = Inl ex \<longrightarrow>
      createFromCommand keyLess n obj = Inl ex)
   \<and> (extractChunk keyLess obj kMigratedChunk = Inr chunk \<and>
       extractShardId obj kFromShard = Inr f \<and> extractShardId obj kToShard = Inr t \<and>
       ChunkVersion_parse (getField obj kFromShardCollectionVersion) = Inr v \<and>
       getField obj kValidAfter = Some e \<and> elementType e \<noteq> Timestamp_type \<longrightarrow>
      createFromCommand keyLess n obj =
        Inl \<lparr>code = TypeMismatch, reason = ''Wrong type for field '' @ kValidAfter\<rparr>)
   \<and> (extractChunk keyLess obj kMigratedChunk = Inr chunk \<and>
       extractShardId obj kFromShard = Inr f \<and> extractShardId obj kToShard = Inr t \<and>
       ChunkVersion_parse (getField obj kFromShardCollectionVersion) = Inr v \<and>
       getField obj kValidAfter = None \<longrightarrow>
      createFromCommand keyLess n obj =
        Inr \<lparr>m_nss = n, m_migratedChunk = chunk, m_fromShard = f, m_toShard = t,
             m_collectionEpoch = epoch v, m_collectionTimestamp = getTimestamp v,
             m_validAfter = None\<rparr>)
   \<and> (getField obj kFromShard = Some (BString [])
       \<or> getField obj kToShard = Some (BString [])
       \<or> (getField obj kMigratedChunk = Some (BObject c) \<and>
           (getField c lastmod = None \<or> (ChunkVersion_parse (getField c lastmod) = Inr cv \<and> \<not> isSet cv)))
       \<or> (getField obj kMigratedChunk = Some (BObject c) \<and> getField c kMinKey = Some (BObject mn) \<and>
           getField c kMaxKey = Some (BObject mx) \<and> \<not> keyLess mn mx)
       \<or> ChunkVersion_parse (getField obj kFromShardCollectionVersion) = Inl ex
       \<or> (getField obj kValidAfter = Some e \<and> elementType e \<noteq> Timestamp_type) \<longrightarrow>
      (\<exists>status. createFromCommand keyLess n obj = Inl status))"
proof (intro conjI impI)
  assume "getField obj kMigratedChunk = Some (BObject c) \<and> getField c kMinKey = Some (BObject mn) \<and>
    getField c kMaxKey = Some (BObject mx) \<and> \<not> keyLess mn mx"
  then show "createFromCommand keyLess n obj =
        Inl \<lparr>code = MalformedInput, reason = ''min should be less than max''\<rparr>"
    by (intro createFromCommand_chunk_error extractChunk_range_error [where c = c]
        ChunkRange_fromBSON_unordered [where mn = mn and mx = mx]) simp_all
next
  assume "getField obj kMigratedChunk = Some (BObject c) \<and> ChunkRange_fromBSON keyLess c = Inr rg \<and>
       getField c lastmod = None"
  then show "createFromCommand keyLess n obj = Inl versionParseError"
    by (intro createFromCommand_chunk_error extractChunk_version_error [where c = c and rg = rg])
       (simp_all add: ChunkVersion_parse_missing)
next
  assume "getField obj kMigratedChunk = Some (BObject c) \<and> ChunkRange_fromBSON keyLess c = Inr rg \<and>
       ChunkVersion_parse (getField c lastmod) = Inr cv \<and> \<not> isSet cv"
  then show "createFromCommand keyLess n obj =
        Inl \<lparr>code = Location 644490, reason = ''Version must be set''\<rparr>"
    by (intro createFromCommand_chunk_error
        extractChunk_version_unset [where c = c and rg = rg and v = cv]) simp_all
next
  assume "extractChunk keyLess obj kMigratedChunk = Inr chunk \<and>
       getField obj kFromShard = Some (BString [])"
  then show "createFromCommand keyLess n obj =
        Inl \<lparr>code = UnsupportedFormat,
             reason = ''The field '' @ [CHR 0x27] @ kFromShard @ [CHR 0x27] @ '' cannot be empty''\<rparr>"
    using extractShardId_empty [of obj kFromShard] by (simp add: createFromCommand_def)
next
  assume "extractChunk keyLess obj kMigratedChunk = Inr chunk \<and>
       extractShardId obj kFromShard = Inr f \<and>
       getField obj kToShard = Some (BString [])"
  then show "createFromCommand keyLess n obj =
        Inl \<lparr>code = UnsupportedFormat,
             reason = ''The field '' @ [CHR 0x27] @ kToShard @ [CHR 0x27] @ '' cannot be empty''\<rparr>"
    using extractShardId_empty [of obj kToShard] by (simp add: createFromCommand_def)
next
  assume "extractChunk keyLess obj kMigratedChunk = Inr chunk \<and>
       extractShardId obj kFromShard = Inr f \<and> extractShardId obj kToShard = Inr t \<and>
       ChunkVersion_parse (getField obj kFromShardCollectionVersion) = Inl ex"
  then show "createFromCommand keyLess n obj = Inl ex"
    by (simp add: createFromCommand_def)
next
  assume "extractChunk keyLess obj kMigratedChunk = Inr chunk \<and>
       extractShardId obj kFromShard = Inr f \<and> extractShardId obj kToShard = Inr t \<and>
       ChunkVersion_parse (getField obj kFromShardCollectionVersion) = Inr v \<and>
       getField obj kValidAfter = Some e \<and> elementType e \<noteq> Timestamp_type"
  then show "createFromCommand keyLess n obj =
        Inl \<lparr>code = TypeMismatch, reason = ''Wrong type for field '' @ kValidAfter\<rparr>"
    using bsonExtractTimestampField_wrong_type [of obj kValidAfter e]
    by (simp add: createFromCommand_def)
next
  assume "extractChunk keyLess obj kMigratedChunk = Inr chunk \<and>
       extractShardId obj kFromShard = Inr f \<and> extractShardId obj kToShard = Inr t \<and>
       ChunkVersion_parse (getField obj kFromShardCollectionVersion) = Inr v \<and>
       getField obj kValidAfter = None"
  then show "createFromCommand keyLess n obj =
        Inr \<lparr>m_nss = n, m_migratedChunk = chunk, m_fromShard = f, m_toShard = t,
             m_collectionEpoch = epoch v, m_collectionTimestamp = getTimestamp v,
             m_validAfter = None\<rparr>"
    by (intro createFromCommand_absent) simp_all
next
  assume defect: "getField obj kFromShard = Some (BString [])
       \<or> getField obj kToShard = Some (BString [])
       \<or> (getField obj kMigratedChunk = Some (BObject c) \<and>
           (getField c lastmod = None \<or> (ChunkVersion_parse (getField c lastmod) = Inr cv \<and> \<not> isSet cv)))
       \<or> (getField obj kMigratedChunk = Some (BObject c) \<and> getField c kMinKey = Some (BObject mn) \<and>
           getField c kMaxKey = Some (BObject mx) \<and> \<not> keyLess mn mx)
       \<or> ChunkVersion_parse (getField obj kFromShardCollectionVersion) = Inl ex
       \<or> (getField obj kValidAfter = Some e \<and> elementType e \<noteq> Timestamp_type)"
  show "\<exists>status. createFromCommand keyLess n obj = Inl status"
  proof (cases "createFromCommand keyLess n obj")
    case (Inl status)
    then show ?thesis by blast
  next
    case (Inr r)
    from createFromCommand_InrD [OF Inr] obtain chunk' f' t' v' where
      c: "extractChunk keyLess obj kMigratedChunk = Inr chunk'" and
      f: "extractShardId obj kFromShard = Inr f'" and
      t: "extractShardId obj kToShard = Inr t'" and
      v: "ChunkVersion_parse (getField obj kFromShardCollectionVersion) = Inr v'" and
      va: "(\<exists>ts. bsonExtractTimestampField obj kValidAfter = Inr ts \<and> m_validAfter r = Some ts) \<or>
            (getField obj kValidAfter = None \<and> m_validAfter r = None)"
      by blast
    from extractChunk_InrD [OF c] obtain c' where
      c': "getField obj kMigratedChunk = Some (BObject c')"
          "getField c' kMinKey = Some (BObject (getMin chunk'))"
          "getField c' kMaxKey = Some (BObject (getMax chunk'))"
          "keyLess (getMin chunk') (getMax chunk')"
          "ChunkVersion_parse (getField c' lastmod) = Inr (getVersion chunk')"
          "isSet (getVersion chunk')"
      by blast
    have ts: "getField obj kValidAfter = Some e \<Longrightarrow> elementType e = Timestamp_type"
      using va
      by (auto simp: bsonExtractTimestampField_def bsonExtractTypedField_def
          split: option.splits if_splits)
    from defect extractShardId_Inr [OF f] extractShardId_Inr [OF t] c' v ts
    have False by (auto simp: ChunkVersion_parse_missing)
    then show ?thesis ..
  qed
qed

text \<open>
  C3 at nine messages: the example message with one field replaced by a defective one
  (a reversed range, no version, a version with counter 0, an empty \<open>fromShard\<close>, an
  empty \<open>toShard\<close>, a string for the collection version, a string for \<open>validAfter\<close>),
  the example message without \<open>validAfter\<close>, and a message with four defects.
\<close>

theorem createFromCommand_rejects_witness:
  "createFromCommand longKeyLess exampleNss
     (commitMessage (BString ''s1'') (BString ''s2'')
        (chunkObject [(''x'', BLong 100)] [(''x'', BLong 0)]
           [(lastmod, BObject (ChunkVersion_toBSON (getVersion exampleChunk)))])
        (BObject (ChunkVersion_toBSON exampleVersion)) [(kValidAfter, BTimestamp 42)]) =
     Inl \<lparr>code = MalformedInput, reason = ''min should be less than max''\<rparr>
   \<and> createFromCommand longKeyLess exampleNss
     (commitMessage (BString ''s1'') (BString ''s2'')
        (chunkObject (getMin exampleChunk) (getMax exampleChunk) [])
        (BObject (ChunkVersion_toBSON exampleVersion)) [(kValidAfter, BTimestamp 42)]) =
     Inl versionParseError
   \<and> createFromCommand longKeyLess exampleNss
     (commitMessage (BString ''s1'') (BString ''s2'')
        (chunkObject (getMin exampleChunk) (getMax exampleChunk)
           [(lastmod, BObject (ChunkVersion_toBSON \<lparr>epoch = 7, getTimestamp = 11, counter = 0\<rparr>))])
        (BObject (ChunkVersion_toBSON exampleVersion)) [(kValidAfter, BTimestamp 42)]) =
     Inl \<lparr>code = Location 644490, reason = ''Version must be set''\<rparr>
   \<and> createFromCommand longKeyLess exampleNss
     (commitMessage (BString []) (BString ''s2'') exampleChunkObject
        (BObject (ChunkVersion_toBSON exampleVersion)) [(kValidAfter, BTimestamp 42)]) =
     Inl \<lparr>code = UnsupportedFormat,
          reason = ''The field '' @ [CHR 0x27] @ kFromShard @ [CHR 0x27] @ '' cannot be empty''\<rparr>
   \<and> createFromCommand longKeyLess exampleNss
     (commitMessage (BString ''s1'') (BString []) exampleChunkObject
        (BObject (ChunkVersion_toBSON exampleVersion)) [(kValidAfter, BTimestamp 42)]) =
     Inl \<lparr>code = UnsupportedFormat,
          reason = ''The field '' @ [CHR 0x27] @ kToShard @ [CHR 0x27] @ '' cannot be empty''\<rparr>
   \<and> createFromCommand longKeyLess exampleNss
     (commitMessage (BString ''s1'') (BString ''s2'') exampleChunkObject
        (BString ''5'') [(kValidAfter, BTimestamp 42)]) =
     Inl versionParseError
   \<and> createFromCommand longKeyLess exampleNss
     (commitMessage (BString ''s1'') (BString ''s2'') exampleChunkObject
        (BObject (ChunkVersion_toBSON exampleVersion)) [(kValidAfter, BString ''now'')]) =
     Inl \<lparr>code = TypeMismatch, reason = ''Wrong type for field '' @ kValidAfter\<rparr>
   \<and> createFromCommand longKeyLess exampleNss
     (commitMessage (BString ''s1'') (BString ''s2'') exampleChunkObject
        (BObject (ChunkVersion_toBSON exampleVersion)) []) =
     Inr \<lparr>m_nss = exampleNss, m_migratedChunk = exampleChunk, m_fromShard = ''s1'',
          m_toShard = ''s2'', m_collectionEpoch = epoch exampleVersion,
          m_collectionTimestamp = getTimestamp exampleVersion, m_validAfter = None\<rparr>
   \<and> (\<exists>status. createFromCommand longKeyLess exampleNss
         (commitMessage (BString []) (BString []) exampleChunkObject
            (BString ''5'') [(kValidAfter, BString ''now'')]) = Inl status)"
proof -
  let ?v = "BObject (ChunkVersion_toBSON exampleVersion)"
  let ?va = "[(kValidAfter, BTimestamp 42)]"
  let ?cv = "[(lastmod, BObject (ChunkVersion_toBSON (getVersion exampleChunk)))]"
  note msg = commitMessage_def chunkObject_def getField_def field_names
  have f: "extractShardId (commitMessage (BString ''s1'') b c d e) kFromShard = Inr ''s1''" for b c d e
    by (rule extractShardId_present) (simp_all add: msg)
  have t: "extractShardId (commitMessage a (BString ''s2'') c d e) kToShard = Inr ''s2''" for a c d e
    by (rule extractShardId_present) (simp_all add: msg)
  have fv: "ChunkVersion_parse (getField (commitMessage a b c ?v e) kFromShardCollectionVersion) =
              Inr exampleVersion" for a b c e
    using ChunkVersion_parse_toBSON [of exampleVersion]
    by (simp add: commitMessage_def getField_def kConfigSvrCommitChunkMigration_def kFromShard_def
        kToShard_def kMigratedChunk_def kFromShardCollectionVersion_def)
  have rg: "ChunkRange_fromBSON longKeyLess
              ((kMinKey, BObject (getMin exampleChunk)) # (kMaxKey, BObject (getMax exampleChunk)) # x) =
            Inr \<lparr>minKey = getMin exampleChunk, maxKey = getMax exampleChunk\<rparr>" for x
    by (simp add: ChunkRange_fromBSON_def bsonExtractTypedField_def getField_def kMinKey_def
        kMaxKey_def exampleChunk_def)
  have w1: "createFromCommand longKeyLess exampleNss
     (commitMessage (BString ''s1'') (BString ''s2'')
        (chunkObject [(''x'', BLong 100)] [(''x'', BLong 0)] ?cv) ?v ?va) =
     Inl \<lparr>code = MalformedInput, reason = ''min should be less than max''\<rparr>"
    by (rule createFromCommand_rejects
          [where c = "[(kMinKey, BObject [(''x'', BLong 100)]), (kMaxKey, BObject [(''x'', BLong 0)])] @ ?cv"
             and mn = "[(''x'', BLong 100)]" and mx = "[(''x'', BLong 0)]",
           THEN conjunct1, THEN mp])
       (simp add: msg)
  have w2: "createFromCommand longKeyLess exampleNss
     (commitMessage (BString ''s1'') (BString ''s2'')
        (chunkObject (getMin exampleChunk) (getMax exampleChunk) []) ?v ?va) =
     Inl versionParseError"
    by (rule createFromCommand_rejects
          [where c = "[(kMinKey, BObject (getMin exampleChunk)), (kMaxKey, BObject (getMax exampleChunk))] @ []"
             and rg = "\<lparr>minKey = getMin exampleChunk, maxKey = getMax exampleChunk\<rparr>",
           THEN conjunct2, THEN conjunct1, THEN mp])
       (simp add: rg, simp add: msg)
  have w3: "createFromCommand longKeyLess exampleNss
     (commitMessage (BString ''s1'') (BString ''s2'')
        (chunkObject (getMin exampleChunk) (getMax exampleChunk)
           [(lastmod, BObject (ChunkVersion_toBSON \<lparr>epoch = 7, getTimestamp = 11, counter = 0\<rparr>))])
        ?v ?va) =
     Inl \<lparr>code = Location 644490, reason = ''Version must be set''\<rparr>"
    by (rule createFromCommand_rejects
          [where c = "[(kMinKey, BObject (getMin exampleChunk)), (kMaxKey, BObject (getMax exampleChunk))] @
                      [(lastmod, BObject (ChunkVersion_toBSON \<lparr>epoch = 7, getTimestamp = 11, counter = 0\<rparr>))]"
             and rg = "\<lparr>minKey = getMin exampleChunk, maxKey = getMax exampleChunk\<rparr>"
             and cv = "\<lparr>epoch = 7, getTimestamp = 11, counter = 0\<rparr>",
           THEN conjunct2, THEN conjunct2, THEN conjunct1, THEN mp])
       (simp add: rg, simp add: msg ChunkVersion_parse_toBSON isSet_def)
  have w4: "createFromCommand longKeyLess exampleNss
     (commitMessage (BString []) (BString ''s2'') exampleChunkObject ?v ?va) =
     Inl \<lparr>code = UnsupportedFormat,
          reason = ''The field '' @ [CHR 0x27] @ kFromShard @ [CHR 0x27] @ '' cannot be empty''\<rparr>"
    by (rule createFromCommand_rejects
          [where chunk = exampleChunk,
           THEN conjunct2, THEN conjunct2, THEN conjunct2, THEN conjunct1, THEN mp])
       (simp add: ex_chunk, simp add: msg)
  have w5: "createFromCommand longKeyLess exampleNss
     (commitMessage (BString ''s1'') (BString []) exampleChunkObject ?v ?va) =
     Inl \<lparr>code = UnsupportedFormat,
          reason = ''The field '' @ [CHR 0x27] @ kToShard @ [CHR 0x27] @ '' cannot be empty''\<rparr>"
    by (rule createFromCommand_rejects
          [where chunk = exampleChunk and f = "''s1''",
           THEN conjunct2, THEN conjunct2, THEN conjunct2, THEN conjunct2, THEN conjunct1, THEN mp])
       (simp add: ex_chunk f, simp add: msg)
  have w6: "createFromCommand longKeyLess exampleNss
     (commitMessage (BString ''s1'') (BString ''s2'') exampleChunkObject (BString ''5'') ?va) =
     Inl versionParseError"
    by (rule createFromCommand_rejects
          [where chunk = exampleChunk and f = "''s1''" and t = "''s2''",
           THEN conjunct2, THEN conjunct2, THEN conjunct2, THEN conjunct2, THEN conjunct2,
           THEN conjunct1, THEN mp])
       (simp add: ex_chunk f t, simp add: msg ChunkVersion_parse_def)
  have w7: "createFromCommand longKeyLess exampleNss
     (commitMessage (BString ''s1'') (BString ''s2'') exampleChunkObject ?v
        [(kValidAfter, BString ''now'')]) =
     Inl \<lparr>code = TypeMismatch, reason = ''Wrong type for field '' @ kValidAfter\<rparr>"
    by (rule createFromCommand_rejects
          [where chunk = exampleChunk and f = "''s1''" and t = "''s2''" and v = exampleVersion
             and e = "BString ''now''",
           THEN conjunct2, THEN conjunct2, THEN conjunct2, THEN conjunct2, THEN conjunct2,
           THEN conjunct2, THEN conjunct1, THEN mp])
       (simp add: ex_chunk f t fv, simp add: msg)
  have w8: "createFromCommand longKeyLess exampleNss
     (commitMessage (BString ''s1'') (BString ''s2'') exampleChunkObject ?v []) =
     Inr \<lparr>m_nss = exampleNss, m_migratedChunk = exampleChunk, m_fromShard = ''s1'',
          m_toShard = ''s2'', m_collectionEpoch = epoch exampleVersion,
          m_collectionTimestamp = getTimestamp exampleVersion, m_validAfter = None\<rparr>"
    by (rule createFromCommand_rejects
          [THEN conjunct2, THEN conjunct2, THEN conjunct2, THEN conjunct2, THEN conjunct2,
           THEN conjunct2, THEN conjunct2, THEN conjunct1, THEN mp])
       (simp add: ex_chunk f t fv, simp add: msg)
  have w9: "\<exists>status. createFromCommand longKeyLess exampleNss
         (commitMessage (BString []) (BString []) exampleChunkObject
            (BString ''5'') [(kValidAfter, BString ''now'')]) = Inl status"
    by (rule createFromCommand_rejects
          [THEN conjunct2, THEN conjunct2, THEN conjunct2, THEN conjunct2, THEN conjunct2,
           THEN conjunct2, THEN conjunct2, THEN conjunct2, THEN mp])
       (simp add: msg)
  from w1 w2 w3 w4 w5 w6 w7 w8 w9 show ?thesis by blast
qed

section \<open>C4: all-or-nothing parsing\<close>

text \<open>
  C4. The parser returns a status or a request, and it returns the request \<open>r\<close>
  exactly when every field of the message is well-formed and \<open>r\<close> holds what was read
  from it: the namespace given; the boundaries \<open>min < max\<close> and the set version found
  inside the object \<open>migratedChunk\<close>; the non-empty strings \<open>fromShard\<close> and
  \<open>toShard\<close>; the epoch and the timestamp of the parsed
  \<open>fromShardCollectionVersion\<close>; and the timestamp \<open>validAfter\<close>, or none when the
  message has none. No request with only some fields extracted is returned. The parser
  does not check that \<open>fromShard\<close> differs from \<open>toShard\<close>, so a returned request
  is valid as far as these checks go, and no further.
\<close>

theorem createFromCommand_all_or_nothing:
  "(createFromCommand keyLess n obj = Inr r) =
     (m_nss r = n
      \<and> (\<exists>c. getField obj kMigratedChunk = Some (BObject c) \<and>
               getField c kMinKey = Some (BObject (getMin (m_migratedChunk r))) \<and>
               getField c kMaxKey = Some (BObject (getMax (m_migratedChunk r))) \<and>
               ChunkVersion_parse (getField c lastmod) = Inr (getVersion (m_migratedChunk r)))
      \<and> keyLess (getMin (m_migratedChunk r)) (getMax (m_migratedChunk r))
      \<and> isSet (getVersion (m_migratedChunk r))
      \<and> getField obj kFromShard = Some (BString (m_fromShard r)) \<and> m_fromShard r \<noteq> []
      \<and> getField obj kToShard = Some (BString (m_toShard r)) \<and> m_toShard r \<noteq> []
      \<and> (\<exists>v. ChunkVersion_parse (getField obj kFromShardCollectionVersion) = Inr v \<and>
               m_collectionEpoch r = epoch v \<and> m_collectionTimestamp r = getTimestamp v)
      \<and> (case m_validAfter r of
            Some ts \<Rightarrow> getField obj kValidAfter = Some (BTimestamp ts)
          | None \<Rightarrow> getField obj kValidAfter = None))
   \<and> ((\<exists>status. createFromCommand keyLess n obj = Inl status) \<or>
       (\<exists>r'. createFromCommand keyLess n obj = Inr r'))"
  (is "(?parsed = ?fields) \<and> ?total")
proof (rule conjI)
  show "?parsed = ?fields"
  proof (rule iffI)
  assume parsed: "?parsed"
  from createFromCommand_InrD [OF parsed] obtain chunk f t v where
    c: "extractChunk keyLess obj kMigratedChunk = Inr chunk" and
    f: "extractShardId obj kFromShard = Inr f" and
    t: "extractShardId obj kToShard = Inr t" and
    v: "ChunkVersion_parse (getField obj kFromShardCollectionVersion) = Inr v" and
    va: "(\<exists>ts. bsonExtractTimestampField obj kValidAfter = Inr ts \<and> m_validAfter r = Some ts) \<or>
         (getField obj kValidAfter = None \<and> m_validAfter r = None)" and
    r: "r = \<lparr>m_nss = n, m_migratedChunk = chunk, m_fromShard = f, m_toShard = t,
            m_collectionEpoch = epoch v, m_collectionTimestamp = getTimestamp v,
            m_validAfter = m_validAfter r\<rparr>"
    by blast
  have sel: "m_nss r = n" "m_migratedChunk r = chunk" "m_fromShard r = f" "m_toShard r = t"
    "m_collectionEpoch r = epoch v" "m_collectionTimestamp r = getTimestamp v"
    by (subst r, simp)+
  from extractChunk_InrD [OF c] obtain c' where
    c': "getField obj kMigratedChunk = Some (BObject c')"
        "getField c' kMinKey = Some (BObject (getMin chunk))"
        "getField c' kMaxKey = Some (BObject (getMax chunk))"
        "keyLess (getMin chunk) (getMax chunk)"
        "ChunkVersion_parse (getField c' lastmod) = Inr (getVersion chunk)"
        "isSet (getVersion chunk)"
    by blast
  have tsf: "bsonExtractTimestampField obj kValidAfter = Inr ts \<Longrightarrow>
             getField obj kValidAfter = Some (BTimestamp ts)" for ts
    by (auto simp: bsonExtractTimestampField_def bsonExtractTypedField_def
        split: option.splits if_splits BSONElement.splits)
  have vaf: "case m_validAfter r of
             Some ts \<Rightarrow> getField obj kValidAfter = Some (BTimestamp ts)
           | None \<Rightarrow> getField obj kValidAfter = None"
    using va tsf by (auto split: option.splits)
  have chunkf: "\<exists>c. getField obj kMigratedChunk = Some (BObject c) \<and>
               getField c kMinKey = Some (BObject (getMin (m_migratedChunk r))) \<and>
               getField c kMaxKey = Some (BObject (getMax (m_migratedChunk r))) \<and>
               ChunkVersion_parse (getField c lastmod) = Inr (getVersion (m_migratedChunk r))"
    using c' sel(2) by blast
  have vf: "\<exists>v. ChunkVersion_parse (getField obj kFromShardCollectionVersion) = Inr v \<and>
               m_collectionEpoch r = epoch v \<and> m_collectionTimestamp r = getTimestamp v"
    using v sel(5,6) by blast
  from sel(1) chunkf c'(4,6) sel(2) extractShardId_Inr [OF f] extractShardId_Inr [OF t]
    sel(3,4) vf vaf
  show "?fields"
    by simp
next
  assume fields: "?fields"
  then obtain c v where
    n: "m_nss r = n" and
    c: "getField obj kMigratedChunk = Some (BObject c)"
       "getField c kMinKey = Some (BObject (getMin (m_migratedChunk r)))"
       "getField c kMaxKey = Some (BObject (getMax (m_migratedChunk r)))"
       "keyLess (getMin (m_migratedChunk r)) (getMax (m_migratedChunk r))"
       "ChunkVersion_parse (getField c lastmod) = Inr (getVersion (m_migratedChunk r))"
       "isSet (getVersion (m_migratedChunk r))" and
    f: "getField obj kFromShard = Some (BString (m_fromShard r))" "m_fromShard r \<noteq> []" and
    t: "getField obj kToShard = Some (BString (m_toShard r))" "m_toShard r \<noteq> []" and
    v: "ChunkVersion_parse (getField obj kFromShardCollectionVersion) = Inr v"
       "m_collectionEpoch r = epoch v" "m_collectionTimestamp r = getTimestamp v" and
    va: "case m_validAfter r of
            Some ts \<Rightarrow> getField obj kValidAfter = Some (BTimestamp ts)
          | None \<Rightarrow> getField obj kValidAfter = None"
    by blast
  have chunk: "extractChunk keyLess obj kMigratedChunk = Inr (m_migratedChunk r)"
    using extractChunk_fields [where keyLess = keyLess, OF c] by simp
  note from_ok = extractShardId_present [OF f]
  note to_ok = extractShardId_present [OF t]
  have r: "r = \<lparr>m_nss = n, m_migratedChunk = m_migratedChunk r, m_fromShard = m_fromShard r,
               m_toShard = m_toShard r, m_collectionEpoch = epoch v,
               m_collectionTimestamp = getTimestamp v, m_validAfter = m_validAfter r\<rparr>"
    using n v(2,3) by (cases r) simp
  show "?parsed"
  proof (cases "m_validAfter r")
    case None
    with va have "getField obj kValidAfter = None" by simp
    from createFromCommand_absent [OF chunk from_ok to_ok v(1) this, of n] r None
    show ?thesis by simp
  next
    case (Some ts)
    with va have "getField obj kValidAfter = Some (BTimestamp ts)" by simp
    then have "bsonExtractTimestampField obj kValidAfter = Inr ts"
      by (rule bsonExtractTimestampField_present)
    from createFromCommand_present [OF chunk from_ok to_ok v(1) this, of n] r Some
    show ?thesis by simp
  qed
  qed
next
  show "?total"
    by (cases "createFromCommand keyLess n obj") blast+
qed

text \<open>
  C4 at the example message: its fields are well-formed, so the parser returns the
  request holding them; and the message without \<open>fromShard\<close> does not give that
  request.
\<close>

theorem createFromCommand_all_or_nothing_witness:
  "createFromCommand longKeyLess exampleNss
     (commitMessage (BString ''s1'') (BString ''s2'') exampleChunkObject
        (BObject (ChunkVersion_toBSON exampleVersion)) [(kValidAfter, BTimestamp 42)]) =
     Inr \<lparr>m_nss = exampleNss, m_migratedChunk = exampleChunk, m_fromShard = ''s1'',
          m_toShard = ''s2'', m_collectionEpoch = 7, m_collectionTimestamp = 11,
          m_validAfter = Some 42\<rparr>
   \<and> createFromCommand longKeyLess exampleNss
     [(kToShard, BString ''s2''), (kMigratedChunk, exampleChunkObject),
      (kFromShardCollectionVersion, BObject (ChunkVersion_toBSON exampleVersion)),
      (kValidAfter, BTimestamp 42)] \<noteq>
     Inr \<lparr>m_nss = exampleNss, m_migratedChunk = exampleChunk, m_fromShard = ''s1'',
          m_toShard = ''s2'', m_collectionEpoch = 7, m_collectionTimestamp = 11,
          m_validAfter = Some 42\<rparr>"
proof -
  let ?r = "\<lparr>m_nss = exampleNss, m_migratedChunk = exampleChunk, m_fromShard = ''s1'',
          m_toShard = ''s2'', m_collectionEpoch = 7, m_collectionTimestamp = 11,
          m_validAfter = Some 42\<rparr>"
  let ?m = "commitMessage (BString ''s1'') (BString ''s2'') exampleChunkObject
        (BObject (ChunkVersion_toBSON exampleVersion)) [(kValidAfter, BTimestamp 42)]"
  let ?m' = "[(kToShard, BString ''s2''), (kMigratedChunk, exampleChunkObject),
      (kFromShardCollectionVersion, BObject (ChunkVersion_toBSON exampleVersion)),
      (kValidAfter, BTimestamp 42)]"
  have fields: "m_nss ?r = exampleNss
      \<and> (\<exists>c. getField ?m kMigratedChunk = Some (BObject c) \<and>
               getField c kMinKey = Some (BObject (getMin (m_migratedChunk ?r))) \<and>
               getField c kMaxKey = Some (BObject (getMax (m_migratedChunk ?r))) \<and>
               ChunkVersion_parse (getField c lastmod) = Inr (getVersion (m_migratedChunk ?r)))
      \<and> longKeyLess (getMin (m_migratedChunk ?r)) (getMax (m_migratedChunk ?r))
      \<and> isSet (getVersion (m_migratedChunk ?r))
      \<and> getField ?m kFromShard = Some (BString (m_fromShard ?r)) \<and> m_fromShard ?r \<noteq> []
      \<and> getField ?m kToShard = Some (BString (m_toShard ?r)) \<and> m_toShard ?r \<noteq> []
      \<and> (\<exists>v. ChunkVersion_parse (getField ?m kFromShardCollectionVersion) = Inr v \<and>
               m_collectionEpoch ?r = epoch v \<and> m_collectionTimestamp ?r = getTimestamp v)
      \<and> (case m_validAfter ?r of
            Some ts \<Rightarrow> getField ?m kValidAfter = Some (BTimestamp ts)
          | None \<Rightarrow> getField ?m kValidAfter = None)"
    by (simp add: example_defs field_names getField_def ChunkVersion_parse_def isSet_def)
  have nofrom: "getField ?m' kFromShard \<noteq> Some (BString (m_fromShard ?r))"
    by (simp add: getField_def field_names)
  from createFromCommand_all_or_nothing
         [where keyLess = longKeyLess and n = exampleNss and obj = "?m" and r = "?r",
          THEN conjunct1] fields
  have a: "createFromCommand longKeyLess exampleNss ?m = Inr ?r" by blast
  from createFromCommand_all_or_nothing
         [where keyLess = longKeyLess and n = exampleNss and obj = "?m'" and r = "?r",
          THEN conjunct1] nofrom
  have b: "createFromCommand longKeyLess exampleNss ?m' \<noteq> Inr ?r" by blast
  from a b show ?thesis by blast
qed

text \<open>
  C4 with \<open>valid\<close> as the data model defines it (\<open>fromShard\<close> and \<open>toShard\<close> must
  differ) does not hold: the message from \<open>shard0\<close> to \<open>shard0\<close> without
  \<open>validAfter\<close> is parsed, and the request returned has the same identifier in both
  members.
\<close>

theorem createFromCommand_returns_same_shard_request:
  "createFromCommand longKeyLess exampleNss
     (commitMessage (BString ''shard0'') (BString ''shard0'') exampleChunkObject
        (BObject (ChunkVersion_toBSON exampleVersion)) []) =
     Inr \<lparr>m_nss = exampleNss, m_migratedChunk = exampleChunk, m_fromShard = ''shard0'',
          m_toShard = ''shard0'', m_collectionEpoch = 7, m_collectionTimestamp = 11,
          m_validAfter = None\<rparr>
   \<and> m_fromShard \<lparr>m_nss = exampleNss, m_migratedChunk = exampleChunk, m_fromShard = ''shard0'',
          m_toShard = ''shard0'', m_collectionEpoch = 7, m_collectionTimestamp = 11,
          m_validAfter = None\<rparr> =
     m_toShard \<lparr>m_nss = exampleNss, m_migratedChunk = exampleChunk, m_fromShard = ''shard0'',
          m_toShard = ''shard0'', m_collectionEpoch = 7, m_collectionTimestamp = 11,
          m_validAfter = None\<rparr>"
  by (simp add: createFromCommand_def newRequest_def extractShardId_def bsonExtractStringField_def
     bsonExtractTimestampField_def
     extractChunk_def example_defs field_names getField_def bsonExtractTypedField_def
     ChunkRange_fromBSON_def ChunkVersion_parse_def isSet_def)

section \<open>C5: the preconditions of the serializer\<close>

text \<open>
  C5. \<open>appendAsCommand\<close> ends in a failed \<open>invariant\<close> exactly when the builder is
  not empty or the namespace is not valid; it has no error result. When the builder is
  empty and the namespace valid, it returns.
\<close>

theorem appendAsCommand_invariants:
  "(appendAsCommand isValid builder n fromShard toShard chunk v ts = InvariantFailure) =
     (\<not> (isEmpty (asTempObj builder) \<and> isValid n))
   \<and> (isEmpty (asTempObj builder) \<and> isValid n \<longrightarrow>
        (\<exists>msg. appendAsCommand isValid builder n fromShard toShard chunk v ts = Returns msg))"
  by (simp add: appendAsCommand_def Let_def)

text \<open>C5 at a builder that already holds a field, at a namespace without a dot, and at the example tuple.\<close>

theorem appendAsCommand_invariants_witness:
  "appendAsCommand dottedName [(''ok'', BBool True)] exampleNss ''s1'' ''s2'' exampleChunk exampleVersion 42 =
     InvariantFailure
   \<and> appendAsCommand dottedName [] ''nodot'' ''s1'' ''s2'' exampleChunk exampleVersion 42 =
     InvariantFailure
   \<and> (\<exists>msg. appendAsCommand dottedName [] exampleNss ''s1'' ''s2'' exampleChunk exampleVersion 42 =
        Returns msg)"
proof -
  have a: "\<not> (isEmpty (asTempObj [(''ok'', BBool True)]) \<and> dottedName exampleNss)"
    by (simp add: isEmpty_def asTempObj_def)
  have b: "\<not> (isEmpty (asTempObj []) \<and> dottedName ''nodot'')"
    by (simp add: dottedName_def)
  have c: "isEmpty (asTempObj []) \<and> dottedName exampleNss"
    by (simp add: isEmpty_def asTempObj_def dottedName_def exampleNss_def)
  from a b c
    appendAsCommand_invariants [where isValid = dottedName and builder = "[(''ok'', BBool True)]"
      and n = exampleNss and fromShard = "''s1''" and toShard = "''s2''" and chunk = exampleChunk
      and v = exampleVersion and ts = 42]
    appendAsCommand_invariants [where isValid = dottedName and builder = "[]"
      and n = "''nodot''" and fromShard = "''s1''" and toShard = "''s2''" and chunk = exampleChunk
      and v = exampleVersion and ts = 42]
    appendAsCommand_invariants [where isValid = dottedName and builder = "[]"
      and n = exampleNss and fromShard = "''s1''" and toShard = "''s2''" and chunk = exampleChunk
      and v = exampleVersion and ts = 42]
  show ?thesis by blast
qed

section \<open>C6: the fields of the serialized message\<close>

text \<open>
  C6. Under its preconditions \<open>appendAsCommand\<close> writes exactly six fields, in this
  order: the command name with the namespace, \<open>fromShard\<close>, \<open>toShard\<close>,
  \<open>migratedChunk\<close> as a nested object of \<open>min\<close>, \<open>max\<close> and the version,
  \<open>fromShardCollectionVersion\<close>, and \<open>validAfter\<close>. The message is given as a
  function of the inputs, so equal inputs give identical messages.
\<close>

theorem appendAsCommand_fields:
  assumes "isEmpty (asTempObj builder)" and "isValid n"
  shows "appendAsCommand isValid builder n fromShard toShard chunk v ts =
     Returns
       [(kConfigSvrCommitChunkMigration, BString (ns n)),
        (kFromShard, BString fromShard),
        (kToShard, BString toShard),
        (kMigratedChunk,
           BObject [(kMinKey, BObject (getMin chunk)), (kMaxKey, BObject (getMax chunk)),
                    (lastmod, BObject [(kEpoch, BOID (epoch (getVersion chunk))),
                                        (kTimestamp, BTimestamp (getTimestamp (getVersion chunk))),
                                        (kCounter, BLong (counter (getVersion chunk)))])]),
        (kFromShardCollectionVersion,
           BObject [(kEpoch, BOID (epoch v)), (kTimestamp, BTimestamp (getTimestamp v)),
                    (kCounter, BLong (counter v))]),
        (kValidAfter, BTimestamp ts)]"
  using appendAsCommand_message [where isValid = isValid and n = n, OF assms]
  by (simp add: ChunkVersion_toBSON_def)

text \<open>C6 at the example tuple, with every field name and value written out.\<close>

theorem appendAsCommand_fields_witness:
  "appendAsCommand dottedName [] exampleNss ''s1'' ''s2'' exampleChunk exampleVersion 42 =
     Returns
       [(''_configsvrCommitChunkMigration'', BString ''test.coll''),
        (''fromShard'', BString ''s1''),
        (''toShard'', BString ''s2''),
        (''migratedChunk'',
           BObject [(''min'', BObject [(''x'', BLong 0)]), (''max'', BObject [(''x'', BLong 100)]),
                    (''lastmod'', BObject [(''e'', BOID 7), (''t'', BTimestamp 11), (''v'', BLong 3)])]),
        (''fromShardCollectionVersion'',
           BObject [(''e'', BOID 7), (''t'', BTimestamp 11), (''v'', BLong 5)]),
        (''validAfter'', BTimestamp 42)]"
proof -
  have a: "isEmpty (asTempObj [])" by (simp add: isEmpty_def asTempObj_def)
  have b: "dottedName exampleNss" by (simp add: dottedName_def exampleNss_def)
  show ?thesis
    using appendAsCommand_fields [where isValid = dottedName and n = exampleNss, OF a b,
        of "''s1''" "''s2''" exampleChunk exampleVersion 42]
    by (simp add: field_names exampleNss_def exampleChunk_def exampleVersion_def ns_def)
qed

section \<open>C7: conflicting options\<close>

text \<open>
  C7. \<open>checkIfOptionsConflict\<close> succeeds exactly when the namespace, the old shard key
  and the new shard key of the arriving request equal those of the in-flight document;
  on any mismatch it throws a conflicting-operation error. It returns nothing else and
  leaves the coordinator as it is.
\<close>

theorem checkIfOptionsConflict_equal_parameters:
  "(checkIfOptionsConflict coordinator coorDoc = Inr ()) =
     (d_nss coorDoc = d_nss (m_doc coordinator) \<and>
      d_oldShardKey coorDoc = d_oldShardKey (m_doc coordinator) \<and>
      d_newShardKey coorDoc = d_newShardKey (m_doc coordinator))
   \<and> (\<not> (d_nss coorDoc = d_nss (m_doc coordinator) \<and>
          d_oldShardKey coorDoc = d_oldShardKey (m_doc coordinator) \<and>
          d_newShardKey coorDoc = d_newShardKey (m_doc coordinator)) \<longrightarrow>
        (\<exists>status. checkIfOptionsConflict coordinator coorDoc = Inl status \<and>
                  code status = ConflictingOperation))"
  by (simp add: checkIfOptionsConflict_def)

text \<open>C7 at the example coordinator: its own document, and a document asking for another key.\<close>

theorem checkIfOptionsConflict_equal_parameters_witness:
  "checkIfOptionsConflict exampleCoordinator exampleDoc = Inr ()
   \<and> (\<exists>status.
         checkIfOptionsConflict exampleCoordinator
           (exampleDoc\<lparr>d_newShardKey := [(''a'', BLong 1), (''c'', BLong 1)]\<rparr>) = Inl status
         \<and> code status = ConflictingOperation)"
proof -
  have same: "d_nss exampleDoc = d_nss (m_doc exampleCoordinator) \<and>
      d_oldShardKey exampleDoc = d_oldShardKey (m_doc exampleCoordinator) \<and>
      d_newShardKey exampleDoc = d_newShardKey (m_doc exampleCoordinator)"
    by (simp add: exampleCoordinator_def)
  have differs: "\<not> (d_nss (exampleDoc\<lparr>d_newShardKey := [(''a'', BLong 1), (''c'', BLong 1)]\<rparr>) =
        d_nss (m_doc exampleCoordinator) \<and>
      d_oldShardKey (exampleDoc\<lparr>d_newShardKey := [(''a'', BLong 1), (''c'', BLong 1)]\<rparr>) =
        d_oldShardKey (m_doc exampleCoordinator) \<and>
      d_newShardKey (exampleDoc\<lparr>d_newShardKey := [(''a'', BLong 1), (''c'', BLong 1)]\<rparr>) =
        d_newShardKey (m_doc exampleCoordinator))"
    by (simp add: exampleCoordinator_def exampleDoc_def)
  from same differs
    checkIfOptionsConflict_equal_parameters
      [where coordinator = exampleCoordinator and coorDoc = exampleDoc]
    checkIfOptionsConflict_equal_parameters
      [where coordinator = exampleCoordinator
         and coorDoc = "exampleDoc\<lparr>d_newShardKey := [(''a'', BLong 1), (''c'', BLong 1)]\<rparr>"]
  show ?thesis by blast
qed

section \<open>C8: the progress report\<close>

text \<open>
  C8. For every coordinator and every combination of the two modes,
  \<open>reportForCurrentOp\<close> raises no exception and returns a report holding the namespace,
  the phase and the requested key; the collection UUID is in the report when it is
  known and missing from it otherwise.
\<close>

theorem reportForCurrentOp_never_raises:
  "\<exists>report. reportForCurrentOp coordinator connMode sessionMode = Inr (Some report)
     \<and> getField report kReportNs = Some (BString (ns (d_nss (m_doc coordinator))))
     \<and> getField report kReportPhase = Some (BString (serializePhase (d_phase (m_doc coordinator))))
     \<and> getField report kReportNewShardKey = Some (BObject (m_newShardKey coordinator))
     \<and> getField report kReportCollectionUUID = map_option BUUID (m_collectionUUID coordinator)"
  by (cases "m_collectionUUID coordinator")
     (simp_all add: reportForCurrentOp_def appendElement_def getField_def kReportNs_def
        kReportPhase_def kReportNewShardKey_def kReportCollectionUUID_def)

text \<open>C8 at the example coordinator, whose collection UUID is not known.\<close>

theorem reportForCurrentOp_never_raises_witness:
  "\<exists>report. reportForCurrentOp exampleCoordinator kIncludeIdleConnections kExcludeIdleSessions =
       Inr (Some report)
     \<and> getField report kReportNs = Some (BString ''test.coll'')
     \<and> getField report kReportPhase = Some (BString ''ValidateAndFreeze'')
     \<and> getField report kReportNewShardKey = Some (BObject [(''a'', BLong 1), (''b'', BLong 1)])
     \<and> getField report kReportCollectionUUID = None"
  using reportForCurrentOp_never_raises
          [of exampleCoordinator kIncludeIdleConnections kExcludeIdleSessions]
  by (simp add: exampleCoordinator_def exampleDoc_def exampleNss_def ns_def)

section \<open>C9: the counter of the collection version\<close>

text \<open>
  C9. Of \<open>fromShardCollectionVersion\<close> a parsed request keeps the epoch and the
  timestamp. Two messages whose collection versions have the same epoch and timestamp,
  and whose other fields are the same, give the same result, whatever the two counters
  are: the counter cannot be recovered from the request.
\<close>

theorem createFromCommand_drops_counter:
  assumes "ChunkVersion_parse (getField obj kFromShardCollectionVersion) = Inr v"
    and "ChunkVersion_parse (getField obj' kFromShardCollectionVersion) = Inr v'"
    and "epoch v' = epoch v" and "getTimestamp v' = getTimestamp v"
    and "getField obj' kMigratedChunk = getField obj kMigratedChunk"
    and "getField obj' kFromShard = getField obj kFromShard"
    and "getField obj' kToShard = getField obj kToShard"
    and "getField obj' kValidAfter = getField obj kValidAfter"
  shows "createFromCommand keyLess n obj' = createFromCommand keyLess n obj
       \<and> (\<forall>r. createFromCommand keyLess n obj = Inr r \<longrightarrow>
              m_collectionEpoch r = epoch v \<and> m_collectionTimestamp r = getTimestamp v)"
proof
  have c: "extractChunk keyLess obj' kMigratedChunk = extractChunk keyLess obj kMigratedChunk"
    using assms(5) by (simp add: extractChunk_def bsonExtractTypedField_def)
  have f: "extractShardId obj' kFromShard = extractShardId obj kFromShard"
    using assms(6)
    by (simp add: extractShardId_def bsonExtractStringField_def bsonExtractTypedField_def)
  have t: "extractShardId obj' kToShard = extractShardId obj kToShard"
    using assms(7)
    by (simp add: extractShardId_def bsonExtractStringField_def bsonExtractTypedField_def)
  have va: "bsonExtractTimestampField obj' kValidAfter = bsonExtractTimestampField obj kValidAfter"
    using assms(8) by (simp add: bsonExtractTimestampField_def bsonExtractTypedField_def)
  show "createFromCommand keyLess n obj' = createFromCommand keyLess n obj"
    unfolding createFromCommand_def c f t va assms(1,2)
    by (simp add: assms(3,4) split: sum.splits)
next
  show "\<forall>r. createFromCommand keyLess n obj = Inr r \<longrightarrow>
              m_collectionEpoch r = epoch v \<and> m_collectionTimestamp r = getTimestamp v"
  proof (intro allI impI)
    fix r assume "createFromCommand keyLess n obj = Inr r"
    from createFromCommand_InrD [OF this] assms(1)
    obtain chunk f t where
      "r = \<lparr>m_nss = n, m_migratedChunk = chunk, m_fromShard = f, m_toShard = t,
            m_collectionEpoch = epoch v, m_collectionTimestamp = getTimestamp v,
            m_validAfter = m_validAfter r\<rparr>"
      by auto
    then show "m_collectionEpoch r = epoch v \<and> m_collectionTimestamp r = getTimestamp v"
      by (metis CommitChunkMigrationRequest.select_convs(5,6))
  qed
qed

text \<open>C9 at the example message with the counters 9 and 5.\<close>

theorem createFromCommand_drops_counter_witness:
  "createFromCommand longKeyLess exampleNss
     (commitMessage (BString ''s1'') (BString ''s2'') exampleChunkObject
        (BObject (ChunkVersion_toBSON (exampleVersion\<lparr>counter := 9\<rparr>))) [(kValidAfter, BTimestamp 42)]) =
   createFromCommand longKeyLess exampleNss
     (commitMessage (BString ''s1'') (BString ''s2'') exampleChunkObject
        (BObject (ChunkVersion_toBSON exampleVersion)) [(kValidAfter, BTimestamp 42)])
   \<and> exampleVersion\<lparr>counter := 9\<rparr> \<noteq> exampleVersion"
proof -
  let ?m = "\<lambda>v. commitMessage (BString ''s1'') (BString ''s2'') exampleChunkObject
        (BObject (ChunkVersion_toBSON v)) [(kValidAfter, BTimestamp 42)]"
  have fv: "ChunkVersion_parse (getField (?m v) kFromShardCollectionVersion) = Inr v" for v
    using ChunkVersion_parse_toBSON [of v]
    by (simp add: commitMessage_def getField_def kConfigSvrCommitChunkMigration_def kFromShard_def
        kToShard_def kMigratedChunk_def kFromShardCollectionVersion_def)
  have same: "getField (?m v) kMigratedChunk = getField (?m w) kMigratedChunk"
    "getField (?m v) kFromShard = getField (?m w) kFromShard"
    "getField (?m v) kToShard = getField (?m w) kToShard"
    "getField (?m v) kValidAfter = getField (?m w) kValidAfter" for v w
    by (simp_all add: commitMessage_def getField_def field_names)
  have e: "epoch (exampleVersion\<lparr>counter := 9\<rparr>) = epoch exampleVersion"
    "getTimestamp (exampleVersion\<lparr>counter := 9\<rparr>) = getTimestamp exampleVersion"
    by simp_all
  have ne: "exampleVersion\<lparr>counter := 9\<rparr> \<noteq> exampleVersion"
    by (simp add: exampleVersion_def)
  from createFromCommand_drops_counter
         [where keyLess = longKeyLess and n = exampleNss, OF fv fv e same] ne
  show ?thesis by blast
qed

section \<open>C10: validAfter is always written and optionally read\<close>

text \<open>
  C10. \<open>appendAsCommand\<close> appends \<open>validAfter\<close> unconditionally: whenever its two
  preconditions hold (an empty builder, a valid namespace) it returns a message, for
  every shard identifier, chunk, collection version and timestamp, and that message has
  the field \<open>validAfter\<close> holding the timestamp given; no message it returns lacks the
  field. The parser, for its part, accepts a message without \<open>validAfter\<close> whose other
  fields are well-formed, returning a request without \<open>validAfter\<close>.
\<close>

theorem appendAsCommand_always_validAfter:
  "(isEmpty (asTempObj builder) \<and> isValid n \<longrightarrow>
      (\<exists>msg. appendAsCommand isValid builder n fromShard toShard chunk v ts = Returns msg \<and>
             getField msg kValidAfter = Some (BTimestamp ts)))
   \<and> (appendAsCommand isValid builder n fromShard toShard chunk v ts = Returns msg \<longrightarrow>
      getField msg kValidAfter = Some (BTimestamp ts))
   \<and> (extractChunk keyLess obj kMigratedChunk = Inr chunk' \<and>
      extractShardId obj kFromShard = Inr f \<and> extractShardId obj kToShard = Inr t \<and>
      ChunkVersion_parse (getField obj kFromShardCollectionVersion) = Inr v' \<and>
      getField obj kValidAfter = None \<longrightarrow>
      createFromCommand keyLess n' obj =
        Inr \<lparr>m_nss = n', m_migratedChunk = chunk', m_fromShard = f, m_toShard = t,
             m_collectionEpoch = epoch v', m_collectionTimestamp = getTimestamp v',
             m_validAfter = None\<rparr>)"
proof (intro conjI impI)
  assume "isEmpty (asTempObj builder) \<and> isValid n"
  then have pre: "isEmpty (asTempObj builder)" "isValid n" by simp_all
  from appendAsCommand_message [where isValid = isValid and n = n, OF pre]
  show "\<exists>msg. appendAsCommand isValid builder n fromShard toShard chunk v ts = Returns msg \<and>
             getField msg kValidAfter = Some (BTimestamp ts)"
    by (simp add: getField_def field_names)
next
  assume r: "appendAsCommand isValid builder n fromShard toShard chunk v ts = Returns msg"
  then have pre: "isEmpty (asTempObj builder)" "isValid n"
    by (auto simp: appendAsCommand_def split: if_splits)
  from r appendAsCommand_message [where isValid = isValid and n = n, OF pre]
  show "getField msg kValidAfter = Some (BTimestamp ts)"
    by (auto simp: getField_def field_names)
next
  assume "extractChunk keyLess obj kMigratedChunk = Inr chunk' \<and>
      extractShardId obj kFromShard = Inr f \<and> extractShardId obj kToShard = Inr t \<and>
      ChunkVersion_parse (getField obj kFromShardCollectionVersion) = Inr v' \<and>
      getField obj kValidAfter = None"
  then show "createFromCommand keyLess n' obj =
        Inr \<lparr>m_nss = n', m_migratedChunk = chunk', m_fromShard = f, m_toShard = t,
             m_collectionEpoch = epoch v', m_collectionTimestamp = getTimestamp v',
             m_validAfter = None\<rparr>"
    by (intro createFromCommand_absent) simp_all
qed

text \<open>
  C10 at the example tuple, where \<open>appendAsCommand\<close> returns a message that has
  \<open>validAfter\<close>, and at the example message without \<open>validAfter\<close>, which the
  parser accepts.
\<close>

theorem appendAsCommand_always_validAfter_witness:
  "(\<exists>msg. appendAsCommand dottedName [] exampleNss ''s1'' ''s2'' exampleChunk exampleVersion 42 =
            Returns msg \<and>
          getField msg kValidAfter = Some (BTimestamp 42))
   \<and> createFromCommand longKeyLess exampleNss
        (commitMessage (BString ''s1'') (BString ''s2'') exampleChunkObject
           (BObject (ChunkVersion_toBSON exampleVersion)) []) =
      Inr \<lparr>m_nss = exampleNss, m_migratedChunk = exampleChunk, m_fromShard = ''s1'',
           m_toShard = ''s2'', m_collectionEpoch = epoch exampleVersion,
           m_collectionTimestamp = getTimestamp exampleVersion, m_validAfter = None\<rparr>"
proof -
  let ?m = "commitMessage (BString ''s1'') (BString ''s2'') exampleChunkObject
           (BObject (ChunkVersion_toBSON exampleVersion)) []"
  have pre: "isEmpty (asTempObj []) \<and> dottedName exampleNss"
    by (simp add: isEmpty_def asTempObj_def dottedName_def exampleNss_def)
  have f: "extractShardId ?m kFromShard = Inr ''s1''"
    by (rule extractShardId_present) (simp_all add: commitMessage_def getField_def field_names)
  have t: "extractShardId ?m kToShard = Inr ''s2''"
    by (rule extractShardId_present) (simp_all add: commitMessage_def getField_def field_names)
  have fv: "ChunkVersion_parse (getField ?m kFromShardCollectionVersion) = Inr exampleVersion"
    using ChunkVersion_parse_toBSON [of exampleVersion]
    by (simp add: commitMessage_def getField_def kConfigSvrCommitChunkMigration_def kFromShard_def
        kToShard_def kMigratedChunk_def kFromShardCollectionVersion_def)
  have none: "getField ?m kValidAfter = None"
    by (simp add: commitMessage_def getField_def field_names)
  note inst = appendAsCommand_always_validAfter
      [where isValid = dottedName and builder = "[]" and n = exampleNss and fromShard = "''s1''"
         and toShard = "''s2''" and chunk = exampleChunk and v = exampleVersion and ts = 42
         and keyLess = longKeyLess and obj = "?m" and chunk' = exampleChunk and f = "''s1''"
         and t = "''s2''" and v' = exampleVersion and n' = exampleNss]
  from inst [THEN conjunct1, THEN mp, OF pre]
    inst [THEN conjunct2, THEN conjunct2, THEN mp] ex_chunk f t fv none
  show ?thesis by blast
qed

end
